theory Spec2Isabelle
  imports Main "HOL-Library.AList"
begin

section \<open>The API gateway of \<^verbatim>\<open>src/api-gateway/main.py\<close>\<close>

text \<open>
  The gateway is one Python module: a rate limiter backed by a counter store, a proxy that
  forwards a request to the user service, and a middleware that records metrics around both.
  Each function of the module is a HOL function of the same name over an explicit state
  (the \<open>world\<close>): the counter store, the Prometheus series, the finished trace spans
  and the log of outbound calls. An exception is a value of the type \<open>exn\<close>, and a function
  that may raise returns \<open>exn + 'a\<close> together with the state it leaves behind.
\<close>

subsection \<open>Values\<close>

text \<open>
  JSON documents as \<^verbatim>\<open>json.loads\<close> produces them. \<open>JNonFinite\<close> stands for the
  tokens \<^verbatim>\<open>NaN\<close>, \<^verbatim>\<open>Infinity\<close> and \<^verbatim>\<open>-Infinity\<close>, which the decoder accepts and
  which \<^verbatim>\<open>JSONResponse\<close> (rendering with \<^verbatim>\<open>allow_nan=False\<close>) refuses.
  Other floating-point numbers are not represented.
\<close>

datatype json =
    JNull
  | JBool bool
  | JInt int
  | JNonFinite
  | JStr string
  | JArr "json list"
  | JObj "(string \<times> json) list"

fun json_compliant :: "json \<Rightarrow> bool" where
  "json_compliant JNonFinite = False"
| "json_compliant (JArr vs) = list_all json_compliant vs"
| "json_compliant (JObj kvs) = list_all json_compliant (map snd kvs)"
| "json_compliant _ = True"

text \<open>
  The exceptions that the module raises or lets through:
  \<^verbatim>\<open>HTTPException(status_code, detail)\<close>, \<^verbatim>\<open>httpx.RequestError\<close>
  (every network-level failure and every timeout of the HTTP client is a subclass of it; the
  string is \<^verbatim>\<open>str(e)\<close>), \<^verbatim>\<open>httpx.InvalidURL\<close> (not a subclass of it), the
  connection error and the response error of the Redis client, the
  \<^verbatim>\<open>AttributeError\<close> of \<^verbatim>\<open>request.client.host\<close> when the server gives no client
  address, the \<^verbatim>\<open>JSONDecodeError\<close> of \<^verbatim>\<open>response.json()\<close>, and
  \<^verbatim>\<open>ValueError\<close>: raised by \<^verbatim>\<open>request.url.path\<close> when the URL cannot be split,
  and by \<^verbatim>\<open>JSONResponse\<close> when it renders a non-finite number.
\<close>

datatype exn =
    HTTPException int string
  | RequestError string
  | InvalidURL string
  | RedisConnectionError string
  | RedisResponseError string
  | AttributeError
  | JSONDecodeError
  | ValueError

datatype attr = AStr string | AInt int | ABool bool

record span =
  span_name :: string
  attributes :: "(string \<times> attr) list"

text \<open>
  The inbound request, as the server hands it to the application and as
  \<^verbatim>\<open>starlette.requests.Request\<close> exposes it to the module:
  \<^item> \<open>client_host\<close> is \<^verbatim>\<open>request.client.host\<close>, \<open>None\<close> when \<^verbatim>\<open>request.client\<close> is
    \<^verbatim>\<open>None\<close>;
  \<^item> \<open>http_method\<close> is \<^verbatim>\<open>request.method\<close>;
  \<^item> \<open>scope_path\<close> is the percent-decoded path of the ASGI scope, which the router
    matches and from which the path parameter is taken;
  \<^item> \<open>url_path\<close> is \<^verbatim>\<open>request.url.path\<close>: the path component of the URL that the
    framework puts together from the \<^verbatim>\<open>Host\<close> header, the scope path and the query
    string and then splits. It is \<open>None\<close> when the split raises \<^verbatim>\<open>ValueError\<close>
    (a \<^verbatim>\<open>Host\<close> header such as \<^verbatim>\<open>[\<close>), and it need not equal the scope path (the
    split cuts at \<^verbatim>\<open>?\<close> and \<^verbatim>\<open>#\<close> and drops line feeds);
  \<^item> \<open>headers\<close> are the header lines in their order, names in lower case;
  \<^item> \<open>query_params\<close> are the pairs of the query string in their order.
\<close>

record request =
  client_host :: "string option"
  http_method :: string
  scope_path :: string
  url_path :: "string option"
  headers :: "(string \<times> string) list"
  query_params :: "(string \<times> string) list"
  body :: string

text \<open>A call handed to the shared \<^verbatim>\<open>httpx.AsyncClient\<close>, with the arguments it was given.\<close>

record outbound =
  o_method :: string
  o_url :: string
  o_headers :: "(string \<times> string) list"
  o_params :: "(string \<times> string) list option"
  o_content :: "string option"

text \<open>What the backend sent back: the fields of \<^verbatim>\<open>httpx.Response\<close>.\<close>

record backend_response =
  b_status_code :: int
  b_headers :: "(string \<times> string) list"
  b_content :: string

datatype content = JSONBody json | TextBody string | NoBody

text \<open>The response the gateway gives to its client.\<close>

record response =
  status_code :: int
  resp_headers :: "(string \<times> string) list"
  media_type :: string
  resp_content :: content

subsection \<open>The state\<close>

text \<open>
  \<open>store_up\<close>, \<open>counters\<close> and \<open>expiries\<close> are the counter store behind
  \<^verbatim>\<open>redis_client\<close>: whether it is reachable, the value at each key (a 64-bit integer,
  or something that is not one) and the time to live armed on a key, in seconds. The four
  Prometheus series are total functions of their labels (a series never touched reads
  \<open>0\<close>, or has no observation). Durations are integers of whatever unit the clock
  counts.
\<close>

datatype redis_value = Counter int | Other string

record world =
  store_up :: bool
  counters :: "string \<rightharpoonup> redis_value"
  expiries :: "string \<rightharpoonup> nat"
  REQUEST_COUNT :: "string \<times> string \<times> int \<Rightarrow> nat"
  REQUEST_DURATION :: "string \<times> string \<Rightarrow> int list"
  RATE_LIMIT_HITS :: "string \<Rightarrow> nat"
  ACTIVE_REQUESTS :: int
  spans :: "span list"
  sent :: "outbound list"

text \<open>
  \<^verbatim>\<open>INCR\<close> is one command of the store: it creates a missing key at \<open>0\<close>, adds one
  and returns the new value. It answers with an error, and changes nothing, when the value is
  not an integer and when the sum would leave the 64-bit range. \<^verbatim>\<open>EXPIRE\<close> arms a time
  to live. An unreachable store makes either raise.
\<close>

definition int64_max :: int where
  "int64_max = 9223372036854775807"

definition stored :: "world \<Rightarrow> string \<Rightarrow> int" where
  "stored w key = (case counters w key of Some (Counter v) \<Rightarrow> v | _ \<Rightarrow> 0)"

definition incr :: "string \<Rightarrow> world \<Rightarrow> exn + (int \<times> world)" where
  "incr key w =
     (if \<not> store_up w then Inl (RedisConnectionError ''Error connecting to the counter store'')
      else case counters w key of
             Some (Other s) \<Rightarrow> Inl (RedisResponseError ''value is not an integer or out of range'')
           | _ \<Rightarrow>
               if stored w key \<ge> int64_max
               then Inl (RedisResponseError ''increment or decrement would overflow'')
               else Inr (stored w key + 1,
                         w\<lparr>counters := (counters w)(key \<mapsto> Counter (stored w key + 1))\<rparr>))"

definition expire :: "string \<Rightarrow> nat \<Rightarrow> world \<Rightarrow> exn + world" where
  "expire key seconds w =
     (if \<not> store_up w then Inl (RedisConnectionError ''Error connecting to the counter store'')
      else Inr (w\<lparr>expiries := (expiries w)(key \<mapsto> seconds)\<rparr>))"

definition inc_at :: "('k \<Rightarrow> nat) \<Rightarrow> 'k \<Rightarrow> 'k \<Rightarrow> nat" where
  "inc_at series labels = series(labels := series labels + 1)"

definition end_span :: "string \<Rightarrow> (string \<times> attr) list \<Rightarrow> world \<Rightarrow> world" where
  "end_span name attrs w = w\<lparr>spans := spans w @ [\<lparr>span_name = name, attributes = attrs\<rparr>]\<rparr>"

subsection \<open>\<^verbatim>\<open>rate_limiter\<close>\<close>

definition ratelimit_key :: "string \<Rightarrow> string \<Rightarrow> string" where
  "ratelimit_key client_ip p = ''ratelimit:'' @ client_ip @ '':'' @ p"

definition rate_limit_exceeded :: exn where
  "rate_limit_exceeded = HTTPException 429 ''Rate limit exceeded''"

text \<open>
  The function has two points of suspension, \<^verbatim>\<open>await redis_client.incr(key)\<close> and
  \<^verbatim>\<open>await redis_client.expire(key, 60)\<close>, and other requests may run at either. It is
  written here in the two parts that the first of them separates: \<open>rate_limiter_incr\<close>
  runs up to the moment \<^verbatim>\<open>INCR\<close> has answered and hands on the client, the key and the
  count; \<open>rate_limiter_rest\<close> is what the task does when it resumes, in whatever state
  the other tasks have left. \<open>rate_limiter\<close> is the one after the other with nothing
  in between.

  \<^verbatim>\<open>request.client.host\<close> and \<^verbatim>\<open>request.url.path\<close> are read before the span is
  opened. The span \<^verbatim>\<open>rate_limit_check\<close> is closed on every way out of the
  \<^verbatim>\<open>with\<close> block, holding the attributes set so far. A span is its name and the
  attributes the module sets; the exception event that the tracer adds by itself when a block
  is left by an exception is not recorded here.
\<close>

definition rate_limiter_incr ::
  "request \<Rightarrow> world \<Rightarrow> (exn + string \<times> string \<times> int) \<times> world" where
  "rate_limiter_incr request w =
     (case client_host request of
        None \<Rightarrow> (Inl AttributeError, w)
      | Some client_ip \<Rightarrow>
          (case url_path request of
             None \<Rightarrow> (Inl ValueError, w)
           | Some p \<Rightarrow>
               let key = ratelimit_key client_ip p;
                   a0 = [(''client.ip'', AStr client_ip), (''rate_limit.key'', AStr key)]
               in case incr key w of
                    Inl e \<Rightarrow> (Inl e, end_span ''rate_limit_check'' a0 w)
                  | Inr (count, w1) \<Rightarrow> (Inr (client_ip, key, count), w1)))"

definition rate_limiter_rest :: "string \<times> string \<times> int \<Rightarrow> world \<Rightarrow> (exn + unit) \<times> world" where
  "rate_limiter_rest resumed w1 =
     (case resumed of
        (client_ip, key, count) \<Rightarrow>
          let a0 = [(''client.ip'', AStr client_ip), (''rate_limit.key'', AStr key)]
          in case (if count = 1 then expire key 60 w1 else Inr w1) of
               Inl e \<Rightarrow> (Inl e, end_span ''rate_limit_check'' a0 w1)
             | Inr w2 \<Rightarrow>
                 let a1 = a0 @ [(''rate_limit.count'', AInt count)]
                 in if count > 100
                    then (Inl rate_limit_exceeded,
                          end_span ''rate_limit_check''
                            (a1 @ [(''rate_limit.exceeded'', ABool True)])
                            (w2\<lparr>RATE_LIMIT_HITS := inc_at (RATE_LIMIT_HITS w2) client_ip\<rparr>))
                    else (Inr (), end_span ''rate_limit_check'' a1 w2))"

definition rate_limiter :: "request \<Rightarrow> world \<Rightarrow> (exn + unit) \<times> world" where
  "rate_limiter request w =
     (case rate_limiter_incr request w of
        (Inl e, w1) \<Rightarrow> (Inl e, w1)
      | (Inr resumed, w1) \<Rightarrow> rate_limiter_rest resumed w1)"




subsection \<open>\<^verbatim>\<open>get_base_endpoint\<close>\<close>

text \<open>\<^verbatim>\<open>str.split(sep)\<close> of Python: the pieces between the separators, at least one piece.\<close>

fun split_on :: "char \<Rightarrow> string \<Rightarrow> string list" where
  "split_on sep [] = [[]]"
| "split_on sep (c # cs) =
     (if c = sep then [] # split_on sep cs
      else (case split_on sep cs of
              [] \<Rightarrow> [[c]]
            | p # ps \<Rightarrow> (c # p) # ps))"

definition get_base_endpoint :: "string \<Rightarrow> string" where
  "get_base_endpoint p =
     (let parts = split_on CHR ''/'' p
      in if length parts \<ge> 3 \<and> parts ! 1 = ''api''
         then ''/'' @ parts ! 1 @ ''/'' @ parts ! 2
         else p)"

subsection \<open>The outbound client and the environment\<close>

text \<open>
  What becomes of a call handed to the client:
  \<^item> \<open>Refuses msg\<close>: the client raises \<^verbatim>\<open>httpx.InvalidURL\<close> for a URL it cannot
    parse, before anything leaves the process;
  \<^item> \<open>Fails msg\<close>: the call fails below HTTP (connection refused, DNS failure, a
    broken connection) with an \<^verbatim>\<open>httpx.RequestError\<close> of the text \<open>msg\<close>;
  \<^item> \<open>Replies waits r\<close>: the backend sends the reply \<open>r\<close>, and \<open>waits\<close> are the
    lengths, in milliseconds, of the separate waits of the client on the way to the whole
    reply: for a connection from the pool, for the connection to open, for a write to go
    through, for each next piece of the reply to arrive.
\<close>

datatype outcome = Replies "nat list" backend_response | Fails string | Refuses string

text \<open>
  Everything the module reads from outside during one request: the configured base URL of
  the user service, the behaviour of the backend, the JSON decoder behind
  \<^verbatim>\<open>response.json()\<close>, the two readings of \<^verbatim>\<open>time.time()\<close>, the text
  \<^verbatim>\<open>generate_latest()\<close> renders from the registry, and the pages of the framework's
  own documentation routes.
\<close>

record env =
  USER_SERVICE_URL :: string
  docs_page :: "string \<Rightarrow> string"
  backend :: "outbound \<Rightarrow> outcome"
  json_loads :: "string \<Rightarrow> json option"
  time_entry :: int
  time_exit :: int
  generate_latest :: "world \<Rightarrow> string"

text \<open>
  \<^verbatim>\<open>http_client = httpx.AsyncClient(timeout=30.0)\<close> of \<^verbatim>\<open>startup_event\<close>: the
  timeout bounds each wait of the client by itself, not the call as a whole. A wait that
  lasts longer raises a \<^verbatim>\<open>TimeoutException\<close>, a subclass of \<^verbatim>\<open>RequestError\<close>
  whose text is empty. The timeout is in milliseconds here.
\<close>

definition http_client_timeout :: nat where
  "http_client_timeout = 30 * 1000"

definition http_client_send :: "env \<Rightarrow> outbound \<Rightarrow> exn + backend_response" where
  "http_client_send e call =
     (case backend e call of
        Refuses msg \<Rightarrow> Inl (InvalidURL msg)
      | Fails msg \<Rightarrow> Inl (RequestError msg)
      | Replies waits r \<Rightarrow>
          if list_ex (\<lambda>d. http_client_timeout < d) waits then Inl (RequestError [])
          else Inr r)"

subsection \<open>\<^verbatim>\<open>proxy_request\<close>\<close>

text \<open>
  \<^verbatim>\<open>dict(request.headers)\<close> keeps one entry for each name, at the place of its first
  line and with the value of its first line; \<^verbatim>\<open>headers.pop('host', None)\<close> deletes the
  entry of \<^verbatim>\<open>host\<close> if there is one.

  \<^verbatim>\<open>params=request.query_params\<close> hands the client a mapping, and the client sends the
  \<^verbatim>\<open>items()\<close> of it: one pair for each name, at the place of the name's first pair and
  with the value of its last.
\<close>

definition params_items :: "(string \<times> string) list \<Rightarrow> (string \<times> string) list" where
  "params_items qs = foldl (\<lambda>d (k, v). AList.update k v d) [] qs"

definition forwarded_headers :: "request \<Rightarrow> (string \<times> string) list" where
  "forwarded_headers request = AList.delete ''host'' (AList.clearjunk (headers request))"

text \<open>The \<^verbatim>\<open>if\<close>/\<^verbatim>\<open>elif\<close> chain on the method: the call made, or none for the \<^verbatim>\<open>else\<close> branch.\<close>

definition outbound_call :: "string \<Rightarrow> request \<Rightarrow> outbound option" where
  "outbound_call url request =
     (let hs = forwarded_headers request
      in if http_method request = ''GET''
         then Some \<lparr>o_method = ''GET'', o_url = url, o_headers = hs,
                     o_params = Some (params_items (query_params request)), o_content = None\<rparr>
         else if http_method request = ''POST''
         then Some \<lparr>o_method = ''POST'', o_url = url, o_headers = hs,
                     o_params = None, o_content = Some (body request)\<rparr>
         else if http_method request = ''PUT''
         then Some \<lparr>o_method = ''PUT'', o_url = url, o_headers = hs,
                     o_params = None, o_content = Some (body request)\<rparr>
         else if http_method request = ''DELETE''
         then Some \<lparr>o_method = ''DELETE'', o_url = url, o_headers = hs,
                     o_params = None, o_content = None\<rparr>
         else None)"

definition JSONResponse :: "json \<Rightarrow> int \<Rightarrow> response" where
  "JSONResponse j status =
     \<lparr>status_code = status, resp_headers = [], media_type = ''application/json'',
      resp_content = JSONBody j\<rparr>"

definition method_not_allowed :: exn where
  "method_not_allowed = HTTPException 405 ''Method not allowed''"

definition service_unavailable :: "string \<Rightarrow> exn" where
  "service_unavailable msg = HTTPException 503 (''Service unavailable: '' @ msg)"

text \<open>
  Only \<^verbatim>\<open>httpx.RequestError\<close> is caught. The \<^verbatim>\<open>HTTPException\<close> of the
  \<^verbatim>\<open>else\<close> branch, a URL that the client refuses, a body that
  \<^verbatim>\<open>response.json()\<close> cannot decode and a document that \<^verbatim>\<open>JSONResponse\<close> cannot
  render leave the function as they are. \<open>sent\<close> logs the calls handed to the client.
\<close>

definition proxy_request :: "env \<Rightarrow> string \<Rightarrow> string \<Rightarrow> request \<Rightarrow> world \<Rightarrow> (exn + response) \<times> world" where
  "proxy_request e service_url p request w =
     (let url = service_url @ p;
          a0 = [(''http.url'', AStr url), (''http.method'', AStr (http_method request)),
                (''http.target'', AStr p), (''service.url'', AStr service_url)]
      in case outbound_call url request of
           None \<Rightarrow> (Inl method_not_allowed, end_span ''proxy_request'' a0 w)
         | Some call \<Rightarrow>
             let w1 = w\<lparr>sent := sent w @ [call]\<rparr>
             in (case http_client_send e call of
                   Inl (RequestError msg) \<Rightarrow>
                     (Inl (service_unavailable msg),
                      end_span ''proxy_request''
                        (a0 @ [(''error'', ABool True), (''error.message'', AStr msg)]) w1)
                 | Inl other \<Rightarrow> (Inl other, end_span ''proxy_request'' a0 w1)
                 | Inr r \<Rightarrow>
                     let a1 = a0 @ [(''http.status_code'', AInt (b_status_code r))]
                     in (case json_loads e (b_content r) of
                           None \<Rightarrow> (Inl JSONDecodeError, end_span ''proxy_request'' a1 w1)
                         | Some j \<Rightarrow>
                             if json_compliant j
                             then (Inr (JSONResponse j (b_status_code r)),
                                   end_span ''proxy_request'' a1 w1)
                             else (Inl ValueError, end_span ''proxy_request'' a1 w1))))"

subsection \<open>The route handlers\<close>

definition user_service_proxy :: "env \<Rightarrow> string \<Rightarrow> request \<Rightarrow> world \<Rightarrow> (exn + response) \<times> world" where
  "user_service_proxy e path_param request w =
     proxy_request e (USER_SERVICE_URL e) (''/api/users/'' @ path_param) request w"

definition health_check :: json where
  "health_check = JObj [(''status'', JStr ''healthy''), (''service'', JStr ''api-gateway'')]"

definition metrics_endpoint :: "env \<Rightarrow> world \<Rightarrow> response" where
  "metrics_endpoint e w =
     \<lparr>status_code = 200, resp_headers = [],
      media_type = ''text/plain; version=0.0.4; charset=utf-8'',
      resp_content = TextBody (generate_latest e w)\<rparr>"

subsection \<open>The application: routes, dependencies and middleware\<close>

text \<open>
  The decorators and calls of the module compose its functions into the application. The
  composition is the framework's (Starlette and FastAPI), written out here from the outside in:
  \<^item> the outermost layer answers an exception that reaches it with the plain text
    \<^verbatim>\<open>Internal Server Error\<close> and status 500;
  \<^item> \<^verbatim>\<open>metrics_middleware\<close>, registered last and therefore outside the CORS layer; an
    exception of \<^verbatim>\<open>call_next\<close> is raised inside it;
  \<^item> the CORS layer of \<^verbatim>\<open>app.add_middleware(CORSMiddleware, ...)\<close>, with every origin,
    method and header allowed and credentials allowed: a request without an
    \<^verbatim>\<open>Origin\<close> header passes untouched; a preflight (\<^verbatim>\<open>OPTIONS\<close> with
    \<^verbatim>\<open>Origin\<close> and \<^verbatim>\<open>Access-Control-Request-Method\<close>) is answered by the layer
    itself and goes no further; any other request passes and its response gets the CORS
    headers;
  \<^item> the exception layer, which turns an \<^verbatim>\<open>HTTPException\<close> into a JSON response
    \<^verbatim>\<open>{"detail": ...}\<close> of its status and lets any other exception through;
  \<^item> the router: the first route that matches path and method runs; a route that matches
    the path only answers \<^verbatim>\<open>HTTPException(405)\<close>; a path that matches nothing but does
    so with its trailing slash toggled is redirected; anything else is
    \<^verbatim>\<open>HTTPException(404)\<close>;
  \<^item> the routes in the order of their registration: the documentation routes that
    \<^verbatim>\<open>FastAPI(title=..., version=...)\<close> registers by default (for \<^verbatim>\<open>GET\<close> and
    \<^verbatim>\<open>HEAD\<close>), then \<^verbatim>\<open>/health\<close> and \<^verbatim>\<open>/metrics\<close> (\<^verbatim>\<open>app.get\<close>), then
    \<^verbatim>\<open>/api/users/{path:path}\<close> with its four methods;
  \<^item> \<^verbatim>\<open>Depends(rate_limiter)\<close>: the dependency runs when its route has been chosen,
    before the handler, and an exception it raises replaces the handler's result.

  A route is the regular expression the framework compiles from its path and matches with
  \<^verbatim>\<open>re.match\<close>: \<^verbatim>\<open>^/health$\<close> for a fixed path and
  \<^verbatim>\<open>^/api/users/(?P<path>.*)$\<close> for the proxied route. In such an expression
  \<^verbatim>\<open>$\<close> also matches before a line feed that ends the string, and \<^verbatim>\<open>.\<close>
  matches no line feed.

  Not part of the model: the spans that the automatic OpenTelemetry instrumentation adds, the
  \<^verbatim>\<open>Allow\<close> header of the router's 405 and the scheme and host in the
  \<^verbatim>\<open>Location\<close> of a redirect.
\<close>

datatype endpoint =
    Openapi | SwaggerUI | SwaggerRedirect | Redoc
  | HealthCheck | MetricsEndpoint | UserServiceProxy

datatype pattern = Exact string | PathParam string

type_synonym route = "pattern \<times> string list \<times> endpoint"

definition routes :: "route list" where
  "routes =
     [(Exact ''/openapi.json'', [''GET'', ''HEAD''], Openapi),
      (Exact ''/docs'', [''GET'', ''HEAD''], SwaggerUI),
      (Exact ''/docs/oauth2-redirect'', [''GET'', ''HEAD''], SwaggerRedirect),
      (Exact ''/redoc'', [''GET'', ''HEAD''], Redoc),
      (Exact ''/health'', [''GET''], HealthCheck),
      (Exact ''/metrics'', [''GET''], MetricsEndpoint),
      (PathParam ''/api/users/'', [''GET'', ''POST'', ''PUT'', ''DELETE''], UserServiceProxy)]"

text \<open>\<open>dot_star_end rest\<close>: what \<^verbatim>\<open>(.*)$\<close> captures of \<open>rest\<close>, if it matches.\<close>

definition dot_star_end :: "string \<Rightarrow> string option" where
  "dot_star_end rest =
     (if CHR 0x0A \<notin> set rest then Some rest
      else if rest \<noteq> [] \<and> last rest = CHR 0x0A \<and> CHR 0x0A \<notin> set (butlast rest)
      then Some (butlast rest)
      else None)"

fun match_path :: "pattern \<Rightarrow> string \<Rightarrow> string option" where
  "match_path (Exact q) p = (if p = q \<or> p = q @ [CHR 0x0A] then Some [] else None)"
| "match_path (PathParam pre) p =
     (if take (length pre) p = pre then dot_star_end (drop (length pre) p) else None)"

datatype matched = Full endpoint string | Partial | NoMatch

fun resolve :: "route list \<Rightarrow> string \<Rightarrow> string \<Rightarrow> matched" where
  "resolve [] m p = NoMatch"
| "resolve ((pat, ms, ep) # rs) m p =
     (case match_path pat p of
        None \<Rightarrow> resolve rs m p
      | Some param \<Rightarrow>
          if m \<in> set ms then Full ep param
          else (case resolve rs m p of
                  Full ep' param' \<Rightarrow> Full ep' param'
                | _ \<Rightarrow> Partial))"

definition toggle_slash :: "string \<Rightarrow> string" where
  "toggle_slash p =
     (if p \<noteq> [] \<and> last p = CHR ''/''
      then rev (dropWhile (\<lambda>c. c = CHR ''/'') (rev p))
      else p @ ''/'')"

definition run_endpoint :: "env \<Rightarrow> endpoint \<Rightarrow> string \<Rightarrow> request \<Rightarrow> world \<Rightarrow> (exn + response) \<times> world" where
  "run_endpoint e ep param request w =
     (case ep of
        HealthCheck \<Rightarrow> (Inr (JSONResponse health_check 200), w)
      | MetricsEndpoint \<Rightarrow> (Inr (metrics_endpoint e w), w)
      | UserServiceProxy \<Rightarrow>
          (case rate_limiter request w of
             (Inl x, w1) \<Rightarrow> (Inl x, w1)
           | (Inr u, w1) \<Rightarrow> user_service_proxy e param request w1)
      | Openapi \<Rightarrow>
          (Inr \<lparr>status_code = 200, resp_headers = [], media_type = ''application/json'',
                resp_content = TextBody (docs_page e (scope_path request))\<rparr>, w)
      | _ \<Rightarrow>
          (Inr \<lparr>status_code = 200, resp_headers = [], media_type = ''text/html; charset=utf-8'',
                resp_content = TextBody (docs_page e (scope_path request))\<rparr>, w))"

definition router :: "env \<Rightarrow> request \<Rightarrow> world \<Rightarrow> (exn + response) \<times> world" where
  "router e request w =
     (case resolve routes (http_method request) (scope_path request) of
        Full ep param \<Rightarrow> run_endpoint e ep param request w
      | Partial \<Rightarrow> (Inl (HTTPException 405 ''Method Not Allowed''), w)
      | NoMatch \<Rightarrow>
          if scope_path request \<noteq> ''/''
             \<and> resolve routes (http_method request) (toggle_slash (scope_path request)) \<noteq> NoMatch
          then (Inr \<lparr>status_code = 307,
                      resp_headers = [(''location'', toggle_slash (scope_path request))],
                      media_type = [], resp_content = NoBody\<rparr>, w)
          else (Inl (HTTPException 404 ''Not Found''), w))"

definition http_exception_handler :: "int \<Rightarrow> string \<Rightarrow> response" where
  "http_exception_handler status detail = JSONResponse (JObj [(''detail'', JStr detail)]) status"

definition exception_layer :: "env \<Rightarrow> request \<Rightarrow> world \<Rightarrow> (exn + response) \<times> world" where
  "exception_layer e request w =
     (case router e request w of
        (Inl (HTTPException status detail), w1) \<Rightarrow> (Inr (http_exception_handler status detail), w1)
      | other \<Rightarrow> other)"

text \<open>
  The CORS layer as the module configures it: \<^verbatim>\<open>allow_origins=["*"]\<close>,
  \<^verbatim>\<open>allow_credentials=True\<close>, \<^verbatim>\<open>allow_methods=["*"]\<close>,
  \<^verbatim>\<open>allow_headers=["*"]\<close>. \<open>set_header\<close> is the assignment to a header of a
  response: the first line of that name takes the value and the later ones go, or a new line
  is added at the end.
\<close>

fun set_header :: "string \<Rightarrow> string \<Rightarrow> (string \<times> string) list \<Rightarrow> (string \<times> string) list" where
  "set_header k v [] = [(k, v)]"
| "set_header k v ((k', v') # hs) =
     (if k' = k then (k, v) # filter (\<lambda>(a, b). a \<noteq> k) hs
      else (k', v') # set_header k v hs)"

definition ALL_METHODS :: "string list" where
  "ALL_METHODS = [''DELETE'', ''GET'', ''HEAD'', ''OPTIONS'', ''PATCH'', ''POST'', ''PUT'']"

definition is_preflight :: "request \<Rightarrow> bool" where
  "is_preflight request =
     (map_of (headers request) ''origin'' \<noteq> None
      \<and> http_method request = ''OPTIONS''
      \<and> map_of (headers request) ''access-control-request-method'' \<noteq> None)"

definition preflight_response :: "request \<Rightarrow> response" where
  "preflight_response request =
     (let origin = (case map_of (headers request) ''origin'' of None \<Rightarrow> [] | Some v \<Rightarrow> v);
          requested_method =
            (case map_of (headers request) ''access-control-request-method'' of
               None \<Rightarrow> [] | Some v \<Rightarrow> v);
          h0 = [(''vary'', ''Origin''),
                (''access-control-allow-methods'',
                 ''DELETE, GET, HEAD, OPTIONS, PATCH, POST, PUT''),
                (''access-control-max-age'', ''600''),
                (''access-control-allow-credentials'', ''true''),
                (''access-control-allow-origin'', origin)];
          h1 = (case map_of (headers request) ''access-control-request-headers'' of
                  None \<Rightarrow> h0
                | Some requested_headers \<Rightarrow>
                    h0 @ [(''access-control-allow-headers'', requested_headers)])
      in if requested_method \<notin> set ALL_METHODS
         then \<lparr>status_code = 400, resp_headers = h1, media_type = ''text/plain; charset=utf-8'',
               resp_content = TextBody ''Disallowed CORS method''\<rparr>
         else \<lparr>status_code = 200, resp_headers = h1, media_type = ''text/plain; charset=utf-8'',
               resp_content = TextBody ''OK''\<rparr>)"

definition cors_send :: "request \<Rightarrow> (string \<times> string) list \<Rightarrow> (string \<times> string) list" where
  "cors_send request hs =
     (case map_of (headers request) ''origin'' of
        None \<Rightarrow> hs
      | Some origin \<Rightarrow>
          let h1 = set_header ''access-control-allow-credentials'' ''true''
                     (set_header ''access-control-allow-origin'' ''*'' hs)
          in if map_of (headers request) ''cookie'' \<noteq> None
             then let h2 = set_header ''access-control-allow-origin'' origin h1
                  in set_header ''vary''
                       (case map_of h2 ''vary'' of
                          None \<Rightarrow> ''Origin''
                        | Some existing \<Rightarrow> existing @ '', Origin'') h2
             else h1)"

definition cors_layer ::
  "request \<Rightarrow> (request \<Rightarrow> world \<Rightarrow> (exn + response) \<times> world) \<Rightarrow> world
     \<Rightarrow> (exn + response) \<times> world" where
  "cors_layer request inner w =
     (if is_preflight request then (Inr (preflight_response request), w)
      else (case inner request w of
              (Inr resp, w1) \<Rightarrow> (Inr (resp\<lparr>resp_headers := cors_send request (resp_headers resp)\<rparr>), w1)
            | (Inl x, w1) \<Rightarrow> (Inl x, w1)))"

text \<open>
  \<^verbatim>\<open>metrics_middleware\<close>: the gauge is incremented and \<^verbatim>\<open>request.url.path\<close> is read
  before the \<^verbatim>\<open>try\<close> is entered, so a URL that cannot be split leaves the function with
  the increment done and no \<^verbatim>\<open>finally\<close> to run. The count and the duration are
  recorded in the body of the \<^verbatim>\<open>try\<close>, after \<^verbatim>\<open>call_next\<close> has returned a
  response; the \<^verbatim>\<open>finally\<close> clause holds the decrement of the gauge alone.
\<close>

definition metrics_middleware ::
  "env \<Rightarrow> request \<Rightarrow> (request \<Rightarrow> world \<Rightarrow> (exn + response) \<times> world) \<Rightarrow> world
     \<Rightarrow> (exn + response) \<times> world" where
  "metrics_middleware e request call_next w =
     (let w1 = w\<lparr>ACTIVE_REQUESTS := ACTIVE_REQUESTS w + 1\<rparr>;
          start_time = time_entry e
      in case url_path request of
           None \<Rightarrow> (Inl ValueError, w1)
         | Some p \<Rightarrow>
             let base_endpoint = get_base_endpoint p
             in case call_next request w1 of
                  (Inr resp, w2) \<Rightarrow>
                    let duration = time_exit e - start_time;
                        w3 = w2\<lparr>REQUEST_COUNT :=
                                 inc_at (REQUEST_COUNT w2)
                                   (http_method request, base_endpoint, status_code resp)\<rparr>;
                        w4 = w3\<lparr>REQUEST_DURATION :=
                                 (REQUEST_DURATION w3)
                                   ((http_method request, base_endpoint) :=
                                      REQUEST_DURATION w3 (http_method request, base_endpoint)
                                        @ [duration])\<rparr>
                    in (Inr resp, w4\<lparr>ACTIVE_REQUESTS := ACTIVE_REQUESTS w4 - 1\<rparr>)
                | (Inl x, w2) \<Rightarrow> (Inl x, w2\<lparr>ACTIVE_REQUESTS := ACTIVE_REQUESTS w2 - 1\<rparr>))"

definition internal_server_error :: response where
  "internal_server_error =
     \<lparr>status_code = 500, resp_headers = [], media_type = ''text/plain; charset=utf-8'',
      resp_content = TextBody ''Internal Server Error''\<rparr>"

definition app :: "env \<Rightarrow> request \<Rightarrow> world \<Rightarrow> response \<times> world" where
  "app e request w =
     (case metrics_middleware e request (\<lambda>r. cors_layer r (exception_layer e)) w of
        (Inr resp, w1) \<Rightarrow> (resp, w1)
      | (Inl x, w1) \<Rightarrow> (internal_server_error, w1))"

subsection \<open>Concrete inputs\<close>

text \<open>
  A backend that answers every call at once with status 200, one header of its own and the
  body \<^verbatim>\<open>{}\<close>; a decoder that knows this one document; a fresh state with the store
  reachable; and a request of client \<^verbatim>\<open>10.0.0.1\<close> for user 42.
\<close>

definition example_reply :: backend_response where
  "example_reply = \<lparr>b_status_code = 200, b_headers = [(''x-powered-by'', ''users'')], b_content = ''{}''\<rparr>"

definition example_env :: env where
  "example_env =
     \<lparr>USER_SERVICE_URL = ''http://localhost:3000'',
      docs_page = (\<lambda>p. []),
      backend = (\<lambda>call. Replies [5] example_reply),
      json_loads = (\<lambda>s. if s = ''{}'' then Some (JObj []) else None),
      time_entry = 10,
      time_exit = 17,
      generate_latest = (\<lambda>w. [])\<rparr>"

definition example_world :: world where
  "example_world =
     \<lparr>store_up = True, counters = Map.empty, expiries = Map.empty,
      REQUEST_COUNT = (\<lambda>labels. 0), REQUEST_DURATION = (\<lambda>labels. []),
      RATE_LIMIT_HITS = (\<lambda>labels. 0), ACTIVE_REQUESTS = 0, spans = [], sent = []\<rparr>"

definition example_request :: request where
  "example_request =
     \<lparr>client_host = Some ''10.0.0.1'', http_method = ''GET'',
      scope_path = ''/api/users/42'', url_path = Some ''/api/users/42'',
      headers = [(''host'', ''gateway:8000''), (''accept'', ''application/json'')],
      query_params = [(''verbose'', ''1'')], body = []\<rparr>"

text \<open>
  The same request on other paths; with the \<^verbatim>\<open>Host\<close> header \<^verbatim>\<open>[\<close>, from which no URL
  can be split; as the preflight a browser sends before a cross-origin \<^verbatim>\<open>GET\<close>; and with
  a header name and a query parameter that repeat, on a path that ends in a line feed.
\<close>

definition unknown_request :: request where
  "unknown_request =
     example_request\<lparr>scope_path := ''/api/unknownservice/x'', url_path := Some ''/api/unknownservice/x''\<rparr>"

definition bad_host_request :: request where
  "bad_host_request =
     example_request\<lparr>url_path := None, headers := [(''host'', ''[''), (''accept'', ''application/json'')]\<rparr>"

definition preflight_request :: request where
  "preflight_request =
     example_request\<lparr>http_method := ''OPTIONS'',
       headers := [(''host'', ''gateway:8000''), (''origin'', ''https://app.example''),
                   (''access-control-request-method'', ''GET'')]\<rparr>"

definition repeating_request :: request where
  "repeating_request =
     example_request\<lparr>scope_path := ''/api/users/42'' @ [CHR 0x0A],
       headers := [(''host'', ''gateway:8000''), (''accept'', ''text/html''), (''accept'', ''application/json'')],
       query_params := [(''tag'', ''a''), (''tag'', ''b'')]\<rparr>"

section \<open>Framing and routing lemmas\<close>

text \<open>
  What each stage leaves alone, and how the router, the limiter and the proxy compose for a
  request of the user route.
\<close>

lemma match_users_prefix:
  assumes "match_path (PathParam ''/api/users/'') p = Some param"
  shows "\<exists>rest. p = ''/api/users/'' @ rest \<and> dot_star_end rest = Some param"
proof -
  let ?n = "length ''/api/users/''"
  from assms have c: "(if take ?n p = ''/api/users/'' then dot_star_end (drop ?n p) else None) = Some param"
    unfolding match_path.simps .
  then have t: "take ?n p = ''/api/users/''"
    by (metis option.distinct(1))
  with c have d: "dot_star_end (drop ?n p) = Some param"
    by metis
  have "p = take ?n p @ drop ?n p" by (rule append_take_drop_id[symmetric])
  with t d show ?thesis by metis
qed

lemma resolve_users_full:
  assumes "match_path (PathParam ''/api/users/'') p = Some param"
      and "m \<in> set [''GET'', ''POST'', ''PUT'', ''DELETE'']"
  shows "resolve routes m p = Full UserServiceProxy param"
proof -
  from match_users_prefix[OF assms(1)] obtain rest
    where p: "p = ''/api/users/'' @ rest" and d: "dot_star_end rest = Some param" by blast
  show ?thesis using assms(2) d unfolding p by (simp add: routes_def)
qed

lemma resolve_users_partial:
  assumes "match_path (PathParam ''/api/users/'') p = Some param"
      and "m \<notin> set [''GET'', ''POST'', ''PUT'', ''DELETE'']"
  shows "resolve routes m p = Partial"
proof -
  from match_users_prefix[OF assms(1)] obtain rest
    where p: "p = ''/api/users/'' @ rest" and d: "dot_star_end rest = Some param" by blast
  show ?thesis using assms(2) d unfolding p by (simp add: routes_def)
qed

lemma dot_star_end_plain:
  assumes "CHR 0x0A \<notin> set rest"
  shows "match_path (PathParam ''/api/users/'') (''/api/users/'' @ rest) = Some rest"
  using assms by (simp add: dot_star_end_def)

lemma proxy_request_frame:
  "ACTIVE_REQUESTS (snd (proxy_request e s p r w)) = ACTIVE_REQUESTS w"
  "REQUEST_COUNT (snd (proxy_request e s p r w)) = REQUEST_COUNT w"
  "REQUEST_DURATION (snd (proxy_request e s p r w)) = REQUEST_DURATION w"
  "counters (snd (proxy_request e s p r w)) = counters w"
  "expiries (snd (proxy_request e s p r w)) = expiries w"
  "RATE_LIMIT_HITS (snd (proxy_request e s p r w)) = RATE_LIMIT_HITS w"
  by (simp_all add: proxy_request_def Let_def end_span_def split: option.splits sum.splits exn.splits)

lemma proxy_request_sent:
  "sent (snd (proxy_request e s p r w)) =
     sent w @ (case outbound_call (s @ p) r of None \<Rightarrow> [] | Some call \<Rightarrow> [call])"
  by (simp add: proxy_request_def Let_def end_span_def split: option.splits sum.splits exn.splits)

lemma proxy_request_result_indep:
  "fst (proxy_request e s p r w) = fst (proxy_request e s p r w')"
  by (simp add: proxy_request_def Let_def split: option.splits sum.splits exn.splits)

lemma incr_frame:
  assumes "incr key w = Inr (c, w1)"
  shows "store_up w" and "c = stored w key + 1" and "stored w key < int64_max"
    and "w1 = w\<lparr>counters := (counters w)(key \<mapsto> Counter c)\<rparr>"
  using assms
  by (auto simp add: incr_def split: if_splits option.splits redis_value.splits)


lemma rate_limiter_rest_up:
  assumes "store_up w"
  shows "rate_limiter_rest (ip, key, c) w =
    (let w2 = (if c = 1 then w\<lparr>expiries := (expiries w)(key \<mapsto> 60)\<rparr> else w);
         a1 = [(''client.ip'', AStr ip), (''rate_limit.key'', AStr key), (''rate_limit.count'', AInt c)]
     in if c > 100
        then (Inl rate_limit_exceeded,
              end_span ''rate_limit_check'' (a1 @ [(''rate_limit.exceeded'', ABool True)])
                (w2\<lparr>RATE_LIMIT_HITS := inc_at (RATE_LIMIT_HITS w2) ip\<rparr>))
        else (Inr (), end_span ''rate_limit_check'' a1 w2))"
  using assms by (simp add: rate_limiter_rest_def expire_def Let_def)

lemma rate_limiter_incr_ok:
  assumes "client_host r = Some ip" and "url_path r = Some p"
      and "incr (ratelimit_key ip p) w = Inr (c, w1)"
  shows "rate_limiter_incr r w = (Inr (ip, ratelimit_key ip p, c), w1)"
  using assms by (simp add: rate_limiter_incr_def Let_def)

lemma rate_limiter_ok:
  assumes "client_host r = Some ip" and "url_path r = Some p"
      and "incr (ratelimit_key ip p) w = Inr (c, w1)"
  shows "rate_limiter r w = rate_limiter_rest (ip, ratelimit_key ip p, c) w1"
  by (simp add: rate_limiter_def rate_limiter_incr_ok[OF assms])

lemma rate_limiter_down:
  assumes "client_host r = Some ip" and "url_path r = Some p" and "\<not> store_up w"
  shows "rate_limiter r w =
           (Inl (RedisConnectionError ''Error connecting to the counter store''),
            end_span ''rate_limit_check''
              [(''client.ip'', AStr ip), (''rate_limit.key'', AStr (ratelimit_key ip p))] w)"
  using assms by (simp add: rate_limiter_def rate_limiter_incr_def incr_def Let_def)

lemma rate_limiter_incr_frame:
  "ACTIVE_REQUESTS (snd (rate_limiter_incr r w)) = ACTIVE_REQUESTS w"
  "REQUEST_COUNT (snd (rate_limiter_incr r w)) = REQUEST_COUNT w"
  "REQUEST_DURATION (snd (rate_limiter_incr r w)) = REQUEST_DURATION w"
  "sent (snd (rate_limiter_incr r w)) = sent w"
  by (auto simp add: rate_limiter_incr_def incr_def Let_def end_span_def
        split: option.splits redis_value.splits)

lemma rate_limiter_rest_frame:
  "ACTIVE_REQUESTS (snd (rate_limiter_rest st w)) = ACTIVE_REQUESTS w"
  "REQUEST_COUNT (snd (rate_limiter_rest st w)) = REQUEST_COUNT w"
  "REQUEST_DURATION (snd (rate_limiter_rest st w)) = REQUEST_DURATION w"
  "sent (snd (rate_limiter_rest st w)) = sent w"
  by (auto simp add: rate_limiter_rest_def expire_def Let_def end_span_def split: prod.splits)

lemma rate_limiter_unfold:
  "rate_limiter r w =
     (case fst (rate_limiter_incr r w) of
        Inl e \<Rightarrow> (Inl e, snd (rate_limiter_incr r w))
      | Inr st \<Rightarrow> rate_limiter_rest st (snd (rate_limiter_incr r w)))"
  by (simp add: rate_limiter_def split: prod.splits sum.splits)

lemma rate_limiter_snd:
  "snd (rate_limiter r w) =
     (case fst (rate_limiter_incr r w) of
        Inl e \<Rightarrow> snd (rate_limiter_incr r w)
      | Inr st \<Rightarrow> snd (rate_limiter_rest st (snd (rate_limiter_incr r w))))"
  by (simp add: rate_limiter_def split: prod.splits sum.splits)

lemma rate_limiter_frame:
  "ACTIVE_REQUESTS (snd (rate_limiter r w)) = ACTIVE_REQUESTS w"
  "REQUEST_COUNT (snd (rate_limiter r w)) = REQUEST_COUNT w"
  "REQUEST_DURATION (snd (rate_limiter r w)) = REQUEST_DURATION w"
  "sent (snd (rate_limiter r w)) = sent w"
  by (simp_all add: rate_limiter_snd rate_limiter_incr_frame rate_limiter_rest_frame split: sum.splits)

lemma incr_gauge:
  "incr key (w\<lparr>ACTIVE_REQUESTS := g\<rparr>) =
     (case incr key w of Inl e \<Rightarrow> Inl e | Inr (c, w1) \<Rightarrow> Inr (c, w1\<lparr>ACTIVE_REQUESTS := g\<rparr>))"
  by (simp add: incr_def stored_def split: option.splits redis_value.splits)

lemma rate_limiter_incr_gauge:
  "fst (rate_limiter_incr r (w\<lparr>ACTIVE_REQUESTS := g\<rparr>)) = fst (rate_limiter_incr r w)"
  by (simp add: rate_limiter_incr_def incr_gauge Let_def split: option.splits sum.splits prod.splits)

lemma rate_limiter_incr_store_up:
  assumes "fst (rate_limiter_incr r w) = Inr st"
  shows "store_up (snd (rate_limiter_incr r w))"
  using assms
  by (auto simp add: rate_limiter_incr_def incr_def Let_def
        split: option.splits redis_value.splits if_splits)

lemma rate_limiter_rest_result:
  assumes "store_up w"
  shows "fst (rate_limiter_rest (ip, key, c) w) = (if c > 100 then Inl rate_limit_exceeded else Inr ())"
  by (simp add: rate_limiter_rest_up[OF assms] Let_def)

lemma rate_limiter_fst:
  "fst (rate_limiter r w) =
     (case fst (rate_limiter_incr r w) of
        Inl e \<Rightarrow> Inl e
      | Inr (ip, key, c) \<Rightarrow> if c > 100 then Inl rate_limit_exceeded else Inr ())"
proof (cases "fst (rate_limiter_incr r w)")
  case (Inl e)
  then show ?thesis by (simp add: rate_limiter_unfold)
next
  case (Inr st)
  obtain ip key c where st: "st = (ip, key, c)" by (cases st)
  from rate_limiter_incr_store_up[OF Inr]
  have "fst (rate_limiter_rest (ip, key, c) (snd (rate_limiter_incr r w)))
          = (if c > 100 then Inl rate_limit_exceeded else Inr ())"
    by (rule rate_limiter_rest_result)
  with Inr st show ?thesis by (simp add: rate_limiter_unfold)
qed

lemma rate_limiter_gauge:
  "fst (rate_limiter r (w\<lparr>ACTIVE_REQUESTS := g\<rparr>)) = fst (rate_limiter r w)"
  by (simp add: rate_limiter_fst rate_limiter_incr_gauge)

lemma rate_limiter_admits_url:
  assumes "fst (rate_limiter r w) = Inr ()"
  shows "url_path r \<noteq> None"
  using assms
  by (auto simp add: rate_limiter_def rate_limiter_incr_def split: option.splits)

lemma run_endpoint_frame:
  "ACTIVE_REQUESTS (snd (run_endpoint e ep param r w)) = ACTIVE_REQUESTS w"
  "REQUEST_COUNT (snd (run_endpoint e ep param r w)) = REQUEST_COUNT w"
  "REQUEST_DURATION (snd (run_endpoint e ep param r w)) = REQUEST_DURATION w"
proof -
  obtain x w1 where rl: "rate_limiter r w = (x, w1)" by (cases "rate_limiter r w")
  have f: "ACTIVE_REQUESTS w1 = ACTIVE_REQUESTS w" "REQUEST_COUNT w1 = REQUEST_COUNT w"
          "REQUEST_DURATION w1 = REQUEST_DURATION w"
    using rate_limiter_frame[of r w] rl by simp_all
  show "ACTIVE_REQUESTS (snd (run_endpoint e ep param r w)) = ACTIVE_REQUESTS w"
    using f rl by (cases ep; cases x) (simp_all add: run_endpoint_def user_service_proxy_def proxy_request_frame)
  show "REQUEST_COUNT (snd (run_endpoint e ep param r w)) = REQUEST_COUNT w"
    using f rl by (cases ep; cases x) (simp_all add: run_endpoint_def user_service_proxy_def proxy_request_frame)
  show "REQUEST_DURATION (snd (run_endpoint e ep param r w)) = REQUEST_DURATION w"
    using f rl by (cases ep; cases x) (simp_all add: run_endpoint_def user_service_proxy_def proxy_request_frame)
qed

lemma router_frame:
  "ACTIVE_REQUESTS (snd (router e r w)) = ACTIVE_REQUESTS w"
  "REQUEST_COUNT (snd (router e r w)) = REQUEST_COUNT w"
  "REQUEST_DURATION (snd (router e r w)) = REQUEST_DURATION w"
  by (simp_all add: router_def run_endpoint_frame split: matched.splits)

lemma exception_layer_snd: "snd (exception_layer e r w) = snd (router e r w)"
  by (simp add: exception_layer_def split: prod.splits sum.splits exn.splits)

lemma exception_layer_fst:
  "fst (exception_layer e r w) =
     (case fst (router e r w) of
        Inl (HTTPException status detail) \<Rightarrow> Inr (http_exception_handler status detail)
      | other \<Rightarrow> other)"
  by (simp add: exception_layer_def split: prod.splits sum.splits exn.splits)

lemma cors_layer_snd:
  "snd (cors_layer r (exception_layer e) w) = (if is_preflight r then w else snd (router e r w))"
  by (simp add: cors_layer_def exception_layer_snd[symmetric] split: prod.splits sum.splits)

lemma cors_layer_fst:
  "fst (cors_layer r (exception_layer e) w) =
     (if is_preflight r then Inr (preflight_response r)
      else (case fst (router e r w) of
              Inr resp \<Rightarrow> Inr (resp\<lparr>resp_headers := cors_send r (resp_headers resp)\<rparr>)
            | Inl (HTTPException status detail) \<Rightarrow>
                Inr ((http_exception_handler status detail)\<lparr>resp_headers := cors_send r []\<rparr>)
            | Inl other \<Rightarrow> Inl other))"
proof -
  have "fst (cors_layer r (exception_layer e) w) =
     (if is_preflight r then Inr (preflight_response r)
      else (case fst (exception_layer e r w) of
              Inr resp \<Rightarrow> Inr (resp\<lparr>resp_headers := cors_send r (resp_headers resp)\<rparr>)
            | Inl x \<Rightarrow> Inl x))"
    by (simp add: cors_layer_def split: prod.splits sum.splits)
  then show ?thesis
    by (simp add: exception_layer_fst http_exception_handler_def JSONResponse_def
          split: sum.splits exn.splits)
qed

lemma cors_layer_frame:
  "ACTIVE_REQUESTS (snd (cors_layer r (exception_layer e) w)) = ACTIVE_REQUESTS w"
  "REQUEST_COUNT (snd (cors_layer r (exception_layer e) w)) = REQUEST_COUNT w"
  "REQUEST_DURATION (snd (cors_layer r (exception_layer e) w)) = REQUEST_DURATION w"
  by (simp_all add: cors_layer_snd router_frame)

lemma app_bad_url:
  assumes "url_path r = None"
  shows "app e r w = (internal_server_error, w\<lparr>ACTIVE_REQUESTS := ACTIVE_REQUESTS w + 1\<rparr>)"
  using assms by (simp add: app_def metrics_middleware_def Let_def)

lemma app_fst:
  assumes "url_path r = Some u"
  shows "fst (app e r w) =
     (case fst (cors_layer r (exception_layer e) (w\<lparr>ACTIVE_REQUESTS := ACTIVE_REQUESTS w + 1\<rparr>)) of
        Inr resp \<Rightarrow> resp
      | Inl x \<Rightarrow> internal_server_error)"
  using assms
  by (simp add: app_def metrics_middleware_def Let_def split: prod.splits sum.splits)

lemma app_snd:
  assumes "url_path r = Some u"
  shows
  "sent (snd (app e r w)) = sent (snd (cors_layer r (exception_layer e) (w\<lparr>ACTIVE_REQUESTS := ACTIVE_REQUESTS w + 1\<rparr>)))"
  "counters (snd (app e r w)) = counters (snd (cors_layer r (exception_layer e) (w\<lparr>ACTIVE_REQUESTS := ACTIVE_REQUESTS w + 1\<rparr>)))"
  "expiries (snd (app e r w)) = expiries (snd (cors_layer r (exception_layer e) (w\<lparr>ACTIVE_REQUESTS := ACTIVE_REQUESTS w + 1\<rparr>)))"
  "spans (snd (app e r w)) = spans (snd (cors_layer r (exception_layer e) (w\<lparr>ACTIVE_REQUESTS := ACTIVE_REQUESTS w + 1\<rparr>)))"
  "RATE_LIMIT_HITS (snd (app e r w)) = RATE_LIMIT_HITS (snd (cors_layer r (exception_layer e) (w\<lparr>ACTIVE_REQUESTS := ACTIVE_REQUESTS w + 1\<rparr>)))"
  using assms
  by (simp_all add: app_def metrics_middleware_def Let_def split: prod.splits sum.splits)

lemma app_gauge:
  assumes "url_path r = Some u"
  shows "ACTIVE_REQUESTS (snd (app e r w)) = ACTIVE_REQUESTS w"
proof -
  let ?w1 = "w\<lparr>ACTIVE_REQUESTS := ACTIVE_REQUESTS w + 1\<rparr>"
  obtain x w2 where c: "cors_layer r (exception_layer e) ?w1 = (x, w2)"
    by (cases "cors_layer r (exception_layer e) ?w1")
  have "ACTIVE_REQUESTS w2 = ACTIVE_REQUESTS w + 1"
    using cors_layer_frame(1)[of r e ?w1] c by simp
  then show ?thesis
    using assms c by (cases x) (simp_all add: app_def metrics_middleware_def Let_def)
qed

lemma four_not_preflight:
  assumes "http_method r \<in> set [''GET'', ''POST'', ''PUT'', ''DELETE'']"
  shows "\<not> is_preflight r"
  using assms by (auto simp add: is_preflight_def)

lemma router_users:
  assumes "match_path (PathParam ''/api/users/'') (scope_path r) = Some param"
      and "http_method r \<in> set [''GET'', ''POST'', ''PUT'', ''DELETE'']"
  shows "router e r w =
           (case fst (rate_limiter r w) of
              Inl x \<Rightarrow> (Inl x, snd (rate_limiter r w))
            | Inr u \<Rightarrow> proxy_request e (USER_SERVICE_URL e) (''/api/users/'' @ param) r
                        (snd (rate_limiter r w)))"
  by (simp add: router_def resolve_users_full[OF assms] run_endpoint_def user_service_proxy_def
        split: prod.splits sum.splits)

lemma router_partial:
  assumes "match_path (PathParam ''/api/users/'') (scope_path r) = Some param"
      and "http_method r \<notin> set [''GET'', ''POST'', ''PUT'', ''DELETE'']"
  shows "router e r w = (Inl (HTTPException 405 ''Method Not Allowed''), w)"
  by (simp add: router_def resolve_users_partial[OF assms])

lemma router_not_found:
  assumes "resolve routes (http_method r) (scope_path r) = NoMatch"
      and "scope_path r = ''/'' \<or> resolve routes (http_method r) (toggle_slash (scope_path r)) = NoMatch"
  shows "router e r w = (Inl (HTTPException 404 ''Not Found''), w)"
  using assms by (auto simp add: router_def)

lemma app_admitted:
  assumes "match_path (PathParam ''/api/users/'') (scope_path r) = Some param"
      and "http_method r \<in> set [''GET'', ''POST'', ''PUT'', ''DELETE'']"
      and "fst (rate_limiter r w) = Inr ()"
  shows "fst (app e r w) =
           (case fst (proxy_request e (USER_SERVICE_URL e) (''/api/users/'' @ param) r w) of
              Inr resp \<Rightarrow> resp\<lparr>resp_headers := cors_send r (resp_headers resp)\<rparr>
            | Inl (HTTPException status detail) \<Rightarrow>
                (http_exception_handler status detail)\<lparr>resp_headers := cors_send r []\<rparr>
            | Inl other \<Rightarrow> internal_server_error)"
    and "sent (snd (app e r w)) =
           sent w @ (case outbound_call (USER_SERVICE_URL e @ ''/api/users/'' @ param) r of
                       None \<Rightarrow> [] | Some call \<Rightarrow> [call])"
proof -
  let ?w1 = "w\<lparr>ACTIVE_REQUESTS := ACTIVE_REQUESTS w + 1\<rparr>"
  let ?p = "''/api/users/'' @ param"
  from rate_limiter_admits_url[OF assms(3)] obtain u where u: "url_path r = Some u" by blast
  note np = four_not_preflight[OF assms(2)]
  have adm: "fst (rate_limiter r ?w1) = Inr ()"
    using assms(3) by (simp add: rate_limiter_gauge)
  have rt: "router e r ?w1 = proxy_request e (USER_SERVICE_URL e) ?p r (snd (rate_limiter r ?w1))"
    by (simp add: router_users[OF assms(1,2)] adm)
  have pr: "fst (proxy_request e (USER_SERVICE_URL e) ?p r (snd (rate_limiter r ?w1)))
              = fst (proxy_request e (USER_SERVICE_URL e) ?p r w)"
    by (rule proxy_request_result_indep)
  show "fst (app e r w) =
           (case fst (proxy_request e (USER_SERVICE_URL e) ?p r w) of
              Inr resp \<Rightarrow> resp\<lparr>resp_headers := cors_send r (resp_headers resp)\<rparr>
            | Inl (HTTPException status detail) \<Rightarrow>
                (http_exception_handler status detail)\<lparr>resp_headers := cors_send r []\<rparr>
            | Inl other \<Rightarrow> internal_server_error)"
    unfolding app_fst[OF u] cors_layer_fst rt pr using np
    by (simp split: sum.splits exn.splits)
  show "sent (snd (app e r w)) =
           sent w @ (case outbound_call (USER_SERVICE_URL e @ ?p) r of
                       None \<Rightarrow> [] | Some call \<Rightarrow> [call])"
    unfolding app_snd(1)[OF u] cors_layer_snd rt using np
    by (simp add: proxy_request_sent rate_limiter_frame)
qed



lemma rate_limiter_counters:
  assumes "client_host r = Some ip" and "url_path r = Some p"
      and "incr (ratelimit_key ip p) w = Inr (c, w1)"
  shows "counters (snd (rate_limiter r w)) = (counters w)(ratelimit_key ip p \<mapsto> Counter c)"
    and "store_up (snd (rate_limiter r w))"
    and "expiries (snd (rate_limiter r w))
           = (if c = 1 then (expiries w)(ratelimit_key ip p \<mapsto> 60) else expiries w)"
    and "fst (rate_limiter r w) = (if c > 100 then Inl rate_limit_exceeded else Inr ())"
proof -
  note f = incr_frame[OF assms(3)]
  have up: "store_up w1" using f(1,4) by simp
  note rl = rate_limiter_ok[OF assms] rate_limiter_rest_up[OF up]
  show "counters (snd (rate_limiter r w)) = (counters w)(ratelimit_key ip p \<mapsto> Counter c)"
    unfolding rl using f(4) by (simp add: Let_def end_span_def)
  show "store_up (snd (rate_limiter r w))"
    unfolding rl using f(1,4) by (simp add: Let_def end_span_def)
  show "expiries (snd (rate_limiter r w))
           = (if c = 1 then (expiries w)(ratelimit_key ip p \<mapsto> 60) else expiries w)"
    unfolding rl using f(4) by (simp add: Let_def end_span_def)
  show "fst (rate_limiter r w) = (if c > 100 then Inl rate_limit_exceeded else Inr ())"
    unfolding rl by (simp add: Let_def)
qed





lemma app_not_found:
  assumes "\<not> is_preflight r" and "url_path r = Some u"
      and "resolve routes (http_method r) (scope_path r) = NoMatch"
      and "scope_path r = ''/'' \<or> resolve routes (http_method r) (toggle_slash (scope_path r)) = NoMatch"
  shows "fst (app e r w) = (http_exception_handler 404 ''Not Found'')\<lparr>resp_headers := cors_send r []\<rparr>"
    and "sent (snd (app e r w)) = sent w"
    and "counters (snd (app e r w)) = counters w"
    and "expiries (snd (app e r w)) = expiries w"
    and "RATE_LIMIT_HITS (snd (app e r w)) = RATE_LIMIT_HITS w"
    and "spans (snd (app e r w)) = spans w"
  unfolding app_fst[OF assms(2)] app_snd[OF assms(2)] cors_layer_fst cors_layer_snd
    router_not_found[OF assms(3,4)]
  using assms(1) by simp_all

lemma app_preflight:
  assumes "is_preflight r" and "url_path r = Some u"
  shows "fst (app e r w) = preflight_response r"
    and "sent (snd (app e r w)) = sent w"
    and "counters (snd (app e r w)) = counters w"
    and "spans (snd (app e r w)) = spans w"
  unfolding app_fst[OF assms(2)] app_snd[OF assms(2)] cors_layer_fst cors_layer_snd
  using assms(1) by simp_all

lemma app_routed:
  assumes "\<not> is_preflight r" and "url_path r = Some u"
      and "resolve routes (http_method r) (scope_path r) = Full ep param"
  shows "fst (app e r w) =
           (case fst (run_endpoint e ep param r (w\<lparr>ACTIVE_REQUESTS := ACTIVE_REQUESTS w + 1\<rparr>)) of
              Inr resp \<Rightarrow> resp\<lparr>resp_headers := cors_send r (resp_headers resp)\<rparr>
            | Inl (HTTPException status detail) \<Rightarrow>
                (http_exception_handler status detail)\<lparr>resp_headers := cors_send r []\<rparr>
            | Inl other \<Rightarrow> internal_server_error)"
  unfolding app_fst[OF assms(2)] cors_layer_fst
  using assms(1,3) by (simp add: router_def split: sum.splits exn.splits)

lemma app_store_down:
  assumes "match_path (PathParam ''/api/users/'') (scope_path r) = Some param"
      and "http_method r \<in> set [''GET'', ''POST'', ''PUT'', ''DELETE'']"
      and "client_host r = Some ip" and "url_path r = Some p" and "\<not> store_up w"
  shows "fst (app e r w) = internal_server_error"
    and "sent (snd (app e r w)) = sent w"
    and "counters (snd (app e r w)) = counters w"
    and "REQUEST_COUNT (snd (app e r w)) = REQUEST_COUNT w"
    and "REQUEST_DURATION (snd (app e r w)) = REQUEST_DURATION w"
    and "ACTIVE_REQUESTS (snd (app e r w)) = ACTIVE_REQUESTS w"
proof -
  let ?w1 = "w\<lparr>ACTIVE_REQUESTS := ACTIVE_REQUESTS w + 1\<rparr>"
  have d: "\<not> store_up ?w1" using assms(5) by simp
  note rl = rate_limiter_down[OF assms(3,4) d]
  have rt: "router e r ?w1 =
              (Inl (RedisConnectionError ''Error connecting to the counter store''),
               end_span ''rate_limit_check''
                 [(''client.ip'', AStr ip), (''rate_limit.key'', AStr (ratelimit_key ip p))] ?w1)"
    by (simp add: router_users[OF assms(1,2)] rl)
  note np = four_not_preflight[OF assms(2)]
  show "fst (app e r w) = internal_server_error"
    unfolding app_fst[OF assms(4)] cors_layer_fst rt using np by simp
  show "sent (snd (app e r w)) = sent w"
    unfolding app_snd[OF assms(4)] cors_layer_snd rt using np by (simp add: end_span_def)
  show "counters (snd (app e r w)) = counters w"
    unfolding app_snd[OF assms(4)] cors_layer_snd rt using np by (simp add: end_span_def)
  have cl: "cors_layer r (exception_layer e) ?w1 = router e r ?w1"
    using np unfolding cors_layer_def exception_layer_def rt by simp
  show "REQUEST_COUNT (snd (app e r w)) = REQUEST_COUNT w"
    unfolding app_def metrics_middleware_def Let_def cl rt using assms(4) by (simp add: end_span_def)
  show "REQUEST_DURATION (snd (app e r w)) = REQUEST_DURATION w"
    unfolding app_def metrics_middleware_def Let_def cl rt using assms(4) by (simp add: end_span_def)
  show "ACTIVE_REQUESTS (snd (app e r w)) = ACTIVE_REQUESTS w"
    by (rule app_gauge[OF assms(4)])
qed

lemma example_admitted:
  "match_path (PathParam ''/api/users/'') (scope_path example_request) = Some ''42''"
  "http_method example_request \<in> set [''GET'', ''POST'', ''PUT'', ''DELETE'']"
  "client_host example_request = Some ''10.0.0.1''"
  "url_path example_request = Some ''/api/users/42''"
  "store_up example_world"
  "fst (rate_limiter example_request example_world) = Inr ()"
proof -
  show a: "client_host example_request = Some ''10.0.0.1''"
    and b: "url_path example_request = Some ''/api/users/42''"
    by (simp_all add: example_request_def)
  show "match_path (PathParam ''/api/users/'') (scope_path example_request) = Some ''42''"
    by (simp add: example_request_def dot_star_end_def)
  show "http_method example_request \<in> set [''GET'', ''POST'', ''PUT'', ''DELETE'']"
    by (simp add: example_request_def)
  show "store_up example_world" by (simp add: example_world_def)
  have "incr (ratelimit_key ''10.0.0.1'' ''/api/users/42'') example_world
       = Inr (1, example_world\<lparr>counters := (counters example_world)
                  (ratelimit_key ''10.0.0.1'' ''/api/users/42'' \<mapsto> Counter 1)\<rparr>)"
    by (simp add: incr_def stored_def example_world_def int64_max_def)
  from rate_limiter_counters(4)[OF a b this]
  show "fst (rate_limiter example_request example_world) = Inr ()" by simp
qed

lemma outbound_call_supported:
  assumes "outbound_call url r = Some call"
  shows "http_method r \<in> set [''GET'', ''POST'', ''PUT'', ''DELETE'']"
  using assms by (auto simp add: outbound_call_def Let_def split: if_splits)

lemma outbound_call_shape:
  assumes "http_method r \<in> set [''GET'', ''POST'', ''PUT'', ''DELETE'']"
  shows "outbound_call url r =
           Some \<lparr>o_method = http_method r, o_url = url, o_headers = forwarded_headers r,
                 o_params = (if http_method r = ''GET''
                             then Some (params_items (query_params r)) else None),
                 o_content = (if http_method r = ''POST'' \<or> http_method r = ''PUT''
                              then Some (body r) else None)\<rparr>"
  using assms by (auto simp add: outbound_call_def Let_def)

lemma outbound_call_unsupported:
  assumes "http_method r \<notin> set [''GET'', ''POST'', ''PUT'', ''DELETE'']"
  shows "outbound_call url r = None"
  using assms by (simp add: outbound_call_def Let_def)

lemma proxy_request_reply:
  assumes "outbound_call (s @ p) r = Some call"
      and "backend e call = Replies waits b"
      and "\<not> list_ex (\<lambda>d. http_client_timeout < d) waits"
  shows "fst (proxy_request e s p r w) =
           (case json_loads e (b_content b) of
              None \<Rightarrow> Inl JSONDecodeError
            | Some j \<Rightarrow> if json_compliant j then Inr (JSONResponse j (b_status_code b))
                        else Inl ValueError)"
  using assms by (simp add: proxy_request_def http_client_send_def Let_def split: option.splits)

lemma proxy_request_failure:
  assumes "outbound_call (s @ p) r = Some call"
      and "http_client_send e call = Inl (RequestError msg)"
  shows "proxy_request e s p r w =
           (Inl (service_unavailable msg),
            end_span ''proxy_request''
              [(''http.url'', AStr (s @ p)), (''http.method'', AStr (http_method r)),
               (''http.target'', AStr p), (''service.url'', AStr s),
               (''error'', ABool True), (''error.message'', AStr msg)]
              (w\<lparr>sent := sent w @ [call]\<rparr>))"
  using assms by (simp add: proxy_request_def Let_def)

lemma example_call:
  "outbound_call (''http://localhost:3000'' @ ''/api/users/'' @ ''42'') example_request =
     Some \<lparr>o_method = ''GET'', o_url = ''http://localhost:3000/api/users/42'',
           o_headers = [(''accept'', ''application/json'')],
           o_params = Some [(''verbose'', ''1'')], o_content = None\<rparr>"
  by (simp add: outbound_call_def forwarded_headers_def params_items_def example_request_def
        Let_def AList.delete_eq)

lemma forwarded_headers_lookup:
  "map_of (forwarded_headers r) = (map_of (headers r))(''host'' := None)"
  by (simp add: forwarded_headers_def AList.delete_conv' AList.map_of_clearjunk)

lemma forwarded_headers_distinct:
  "distinct (map fst (forwarded_headers r))"
  by (simp add: forwarded_headers_def AList.distinct_delete)

lemma forwarded_headers_filter:
  assumes "distinct (map fst (headers r))"
  shows "forwarded_headers r = filter (\<lambda>(k, v). k \<noteq> ''host'') (headers r)"
proof -
  have "(\<lambda>(k', _). ''host'' \<noteq> k') = (\<lambda>(k, v::string). k \<noteq> ''host'')"
    by (auto simp add: fun_eq_iff)
  then show ?thesis
    using assms by (simp add: forwarded_headers_def AList.delete_eq)
qed

lemma update_fresh:
  assumes "k \<notin> fst ` set al"
  shows "AList.update k v al = al @ [(k, v)]"
  using assms by (induction al) auto

lemma params_fold_lookup:
  "map_of (foldl (\<lambda>d (k, v). AList.update k v d) acc qs) = map_of acc ++ map_of (rev qs)"
proof (induction qs arbitrary: acc)
  case Nil
  then show ?case by simp
next
  case (Cons q qs)
  obtain k v where q: "q = (k, v)" by (cases q)
  have "map_of (foldl (\<lambda>d (k, v). AList.update k v d) acc (q # qs))
          = map_of (AList.update k v acc) ++ map_of (rev qs)"
    by (simp add: q Cons.IH)
  also have "\<dots> = (map_of acc ++ [k \<mapsto> v]) ++ map_of (rev qs)"
    by (simp add: AList.update_conv')
  also have "\<dots> = map_of acc ++ map_of (rev (q # qs))"
    by (simp add: q)
  finally show ?case .
qed

lemma params_fold_distinct:
  assumes "distinct (map fst acc)"
  shows "distinct (map fst (foldl (\<lambda>d (k, v). AList.update k v d) acc qs))"
  using assms
proof (induction qs arbitrary: acc)
  case Nil
  then show ?case by simp
next
  case (Cons q qs)
  obtain k v where q: "q = (k, v)" by (cases q)
  from Cons.prems have "distinct (map fst (AList.update k v acc))"
    by (rule AList.distinct_update)
  from Cons.IH[OF this] show ?case by (simp add: q)
qed

lemma params_fold_id:
  assumes "distinct (map fst (acc @ qs))"
  shows "foldl (\<lambda>d (k, v). AList.update k v d) acc qs = acc @ qs"
  using assms
proof (induction qs arbitrary: acc)
  case Nil
  then show ?case by simp
next
  case (Cons q qs)
  obtain k v where q: "q = (k, v)" by (cases q)
  from Cons.prems have fr: "k \<notin> fst ` set acc" by (auto simp add: q)
  have d: "distinct (map fst ((acc @ [(k, v)]) @ qs))"
    using Cons.prems by (simp add: q)
  from Cons.IH[OF d] show ?case by (simp add: q update_fresh[OF fr])
qed

lemma params_items_lookup: "map_of (params_items qs) = map_of (rev qs)"
  by (simp add: params_items_def params_fold_lookup)

lemma params_items_distinct: "distinct (map fst (params_items qs))"
  by (simp add: params_items_def params_fold_distinct)

lemma params_items_id:
  assumes "distinct (map fst qs)"
  shows "params_items qs = qs"
  using params_fold_id[of "[]" qs] assms by (simp add: params_items_def)

lemma dot_star_end_cases:
  assumes "dot_star_end rest = Some param"
  shows "rest = param \<or> rest = param @ [CHR 0x0A]"
  using assms
  by (auto simp add: dot_star_end_def split: if_splits) (metis append_butlast_last_id)

lemma match_users_path:
  assumes "match_path (PathParam ''/api/users/'') sp = Some param"
  shows "sp = ''/api/users/'' @ param \<or> sp = ''/api/users/'' @ param @ [CHR 0x0A]"
proof -
  from match_users_prefix[OF assms] obtain rest
    where p: "sp = ''/api/users/'' @ rest" and d: "dot_star_end rest = Some param" by blast
  from dot_star_end_cases[OF d] p show ?thesis by auto
qed

lemma example_response:
  "cors_layer example_request (exception_layer example_env)
     (example_world\<lparr>ACTIVE_REQUESTS := ACTIVE_REQUESTS example_world + 1\<rparr>)
   = (Inr (JSONResponse (JObj []) 200),
      snd (cors_layer example_request (exception_layer example_env)
             (example_world\<lparr>ACTIVE_REQUESTS := ACTIVE_REQUESTS example_world + 1\<rparr>)))"
proof -
  let ?w1 = "example_world\<lparr>ACTIVE_REQUESTS := ACTIVE_REQUESTS example_world + 1\<rparr>"
  have adm: "fst (rate_limiter example_request ?w1) = Inr ()"
    by (simp add: rate_limiter_gauge example_admitted(6))
  have rt: "router example_env example_request ?w1
              = proxy_request example_env (USER_SERVICE_URL example_env) (''/api/users/'' @ ''42'')
                  example_request (snd (rate_limiter example_request ?w1))"
    by (simp add: router_users[OF example_admitted(1,2)] adm)
  have us: "USER_SERVICE_URL example_env = ''http://localhost:3000''" by (simp add: example_env_def)
  have call: "outbound_call (USER_SERVICE_URL example_env @ ''/api/users/'' @ ''42'') example_request =
     Some \<lparr>o_method = ''GET'', o_url = ''http://localhost:3000/api/users/42'',
           o_headers = [(''accept'', ''application/json'')],
           o_params = Some [(''verbose'', ''1'')], o_content = None\<rparr>"
    unfolding us by (rule example_call)
  have bk: "backend example_env \<lparr>o_method = ''GET'', o_url = ''http://localhost:3000/api/users/42'',
           o_headers = [(''accept'', ''application/json'')],
           o_params = Some [(''verbose'', ''1'')], o_content = None\<rparr> = Replies [5] example_reply"
    by (simp add: example_env_def)
  have t: "\<not> list_ex (\<lambda>d. http_client_timeout < d) [5]" by (simp add: http_client_timeout_def)
  have pr: "fst (proxy_request example_env (USER_SERVICE_URL example_env) (''/api/users/'' @ ''42'')
                   example_request (snd (rate_limiter example_request ?w1)))
              = Inr (JSONResponse (JObj []) 200)"
    unfolding proxy_request_reply[OF call bk t]
    by (simp add: example_env_def example_reply_def)
  have np: "\<not> is_preflight example_request"
    by (rule four_not_preflight[OF example_admitted(2)])
  have no: "cors_send example_request [] = []"
    by (simp add: cors_send_def example_request_def)
  have "fst (cors_layer example_request (exception_layer example_env) ?w1)
          = Inr (JSONResponse (JObj []) 200)"
    unfolding cors_layer_fst rt pr using np by (simp add: JSONResponse_def no)
  then show ?thesis
    by (simp add: prod_eq_iff)
qed

lemma repeating_admitted:
  "match_path (PathParam ''/api/users/'') (scope_path repeating_request) = Some ''42''"
  "http_method repeating_request \<in> set [''GET'', ''POST'', ''PUT'', ''DELETE'']"
  "fst (rate_limiter repeating_request example_world) = Inr ()"
proof -
  show "match_path (PathParam ''/api/users/'') (scope_path repeating_request) = Some ''42''"
    by (simp add: repeating_request_def example_request_def dot_star_end_def)
  show "http_method repeating_request \<in> set [''GET'', ''POST'', ''PUT'', ''DELETE'']"
    by (simp add: repeating_request_def example_request_def)
  have a: "client_host repeating_request = Some ''10.0.0.1''"
    and b: "url_path repeating_request = Some ''/api/users/42''"
    by (simp_all add: repeating_request_def example_request_def)
  have "incr (ratelimit_key ''10.0.0.1'' ''/api/users/42'') example_world
       = Inr (1, example_world\<lparr>counters := (counters example_world)
                  (ratelimit_key ''10.0.0.1'' ''/api/users/42'' \<mapsto> Counter 1)\<rparr>)"
    by (simp add: incr_def stored_def example_world_def int64_max_def)
  from rate_limiter_counters(4)[OF a b this]
  show "fst (rate_limiter repeating_request example_world) = Inr ()" by simp
qed

lemma http_client_send_failure:
  assumes "backend e call = Fails msg
           \<or> (\<exists>waits b. backend e call = Replies waits b
                 \<and> list_ex (\<lambda>d. http_client_timeout < d) waits \<and> msg = [])"
  shows "http_client_send e call = Inl (RequestError msg)"
  using assms by (auto simp add: http_client_send_def)

lemma http_client_send_reply:
  assumes "backend e call = Replies waits b"
      and "\<not> list_ex (\<lambda>d. http_client_timeout < d) waits"
  shows "http_client_send e call = Inr b"
  using assms by (simp add: http_client_send_def)

section \<open>The claims of the specification\<close>



text \<open>
  Claim C2 as the specification states it fails. A request for
  \<^verbatim>\<open>/api/unknownservice/x\<close> is answered 404, but the counter of its key is as absent
  after the request as before: the limiter did not run, and no span of it was recorded.
  Nor is 404 the answer to every path outside the backend route: \<^verbatim>\<open>/health\<close> is
  answered 200, \<^verbatim>\<open>/api/users\<close> is redirected with 307, a CORS preflight for the unknown
  path is answered 200 by the CORS layer, and the unknown path with a \<^verbatim>\<open>Host\<close> header
  from which no URL can be split ends in 500.
\<close>

theorem no_route_skips_rate_limit_counterexample:
  "status_code (fst (app example_env unknown_request example_world)) = 404
   \<and> counters (snd (app example_env unknown_request example_world))
        (ratelimit_key ''10.0.0.1'' ''/api/unknownservice/x'') = None
   \<and> spans (snd (app example_env unknown_request example_world)) = []
   \<and> status_code (fst (app example_env
        (example_request\<lparr>scope_path := ''/health'', url_path := Some ''/health''\<rparr>) example_world)) = 200
   \<and> status_code (fst (app example_env
        (example_request\<lparr>scope_path := ''/api/users'', url_path := Some ''/api/users''\<rparr>) example_world)) = 307
   \<and> status_code (fst (app example_env
        (preflight_request\<lparr>scope_path := ''/api/unknownservice/x'',
                            url_path := Some ''/api/unknownservice/x''\<rparr>) example_world)) = 200
   \<and> status_code (fst (app example_env
        (bad_host_request\<lparr>scope_path := ''/api/unknownservice/x''\<rparr>) example_world)) = 500"
proof -
  have np: "\<not> is_preflight unknown_request"
    and u: "url_path unknown_request = Some ''/api/unknownservice/x''"
    by (simp_all add: is_preflight_def unknown_request_def example_request_def)
  have a: "resolve routes (http_method unknown_request) (scope_path unknown_request) = NoMatch"
    by (simp add: routes_def unknown_request_def example_request_def)
  have b: "scope_path unknown_request = ''/''
           \<or> resolve routes (http_method unknown_request) (toggle_slash (scope_path unknown_request)) = NoMatch"
    by (simp add: routes_def unknown_request_def example_request_def toggle_slash_def)
  note nf = app_not_found[OF np u a b, of example_env example_world]
  have c1: "status_code (fst (app example_env unknown_request example_world)) = 404"
    unfolding nf by (simp add: http_exception_handler_def JSONResponse_def)
  have c2: "counters (snd (app example_env unknown_request example_world))
        (ratelimit_key ''10.0.0.1'' ''/api/unknownservice/x'') = None"
    unfolding nf by (simp add: example_world_def)
  have c3: "spans (snd (app example_env unknown_request example_world)) = []"
    unfolding nf by (simp add: example_world_def)
  let ?h = "example_request\<lparr>scope_path := ''/health'', url_path := Some ''/health''\<rparr>"
  have hp: "\<not> is_preflight ?h" and hu: "url_path ?h = Some ''/health''"
    by (simp_all add: is_preflight_def example_request_def)
  have hr: "resolve routes (http_method ?h) (scope_path ?h) = Full HealthCheck []"
    by (simp add: routes_def example_request_def)
  have c4: "status_code (fst (app example_env ?h example_world)) = 200"
    unfolding app_routed[OF hp hu hr] by (simp add: run_endpoint_def JSONResponse_def)
  let ?s = "example_request\<lparr>scope_path := ''/api/users'', url_path := Some ''/api/users''\<rparr>"
  have sp: "\<not> is_preflight ?s" and su: "url_path ?s = Some ''/api/users''"
    by (simp_all add: is_preflight_def example_request_def)
  have sr: "router example_env ?s (example_world\<lparr>ACTIVE_REQUESTS := ACTIVE_REQUESTS example_world + 1\<rparr>)
      = (Inr \<lparr>status_code = 307, resp_headers = [(''location'', ''/api/users/'')],
              media_type = [], resp_content = NoBody\<rparr>,
         example_world\<lparr>ACTIVE_REQUESTS := ACTIVE_REQUESTS example_world + 1\<rparr>)"
    by (simp add: router_def routes_def example_request_def toggle_slash_def dot_star_end_def)
  have c5: "status_code (fst (app example_env ?s example_world)) = 307"
    unfolding app_fst[OF su] cors_layer_fst sr using sp by simp
  let ?p = "preflight_request\<lparr>scope_path := ''/api/unknownservice/x'',
                            url_path := Some ''/api/unknownservice/x''\<rparr>"
  have pp: "is_preflight ?p" and pu: "url_path ?p = Some ''/api/unknownservice/x''"
    by (simp_all add: is_preflight_def preflight_request_def example_request_def)
  have c6: "status_code (fst (app example_env ?p example_world)) = 200"
    unfolding app_preflight(1)[OF pp pu]
    by (simp add: preflight_response_def preflight_request_def ALL_METHODS_def Let_def)
  let ?b = "bad_host_request\<lparr>scope_path := ''/api/unknownservice/x''\<rparr>"
  have bu: "url_path ?b = None" by (simp add: bad_host_request_def)
  have c7: "status_code (fst (app example_env ?b example_world)) = 500"
    unfolding app_bad_url[OF bu] by (simp add: internal_server_error_def)
  from c1 c2 c3 c4 c5 c6 c7 show ?thesis by blast
qed

text \<open>
  Claim C2, amended. For every request that is not a CORS preflight, whose URL can be split,
  and whose path matches no route of the application, also not after its trailing slash is
  toggled, the pipeline answers 404 (\<^verbatim>\<open>Not Found\<close>) without an outbound call. The
  limiter is a dependency of the proxied route and does not run for such a request: counters,
  times to live, the rate-limit-hit series and the spans are unchanged.
\<close>

theorem no_route_not_found:
  assumes "\<not> is_preflight request"
      and "url_path request = Some u"
      and "resolve routes (http_method request) (scope_path request) = NoMatch"
      and "scope_path request = ''/''
           \<or> resolve routes (http_method request) (toggle_slash (scope_path request)) = NoMatch"
  shows "status_code (fst (app e request w)) = 404
       \<and> resp_content (fst (app e request w)) = JSONBody (JObj [(''detail'', JStr ''Not Found'')])
       \<and> sent (snd (app e request w)) = sent w
       \<and> counters (snd (app e request w)) = counters w
       \<and> expiries (snd (app e request w)) = expiries w
       \<and> RATE_LIMIT_HITS (snd (app e request w)) = RATE_LIMIT_HITS w
       \<and> spans (snd (app e request w)) = spans w"
  unfolding app_not_found[OF assms]
  by (simp add: http_exception_handler_def JSONResponse_def)

theorem no_route_not_found_witness:
  "\<not> is_preflight unknown_request
   \<and> url_path unknown_request = Some ''/api/unknownservice/x''
   \<and> resolve routes (http_method unknown_request) (scope_path unknown_request) = NoMatch
   \<and> resolve routes (http_method unknown_request) (toggle_slash (scope_path unknown_request)) = NoMatch
   \<and> status_code (fst (app example_env unknown_request example_world)) = 404
   \<and> counters (snd (app example_env unknown_request example_world)) = counters example_world
   \<and> sent (snd (app example_env unknown_request example_world)) = sent example_world"
proof -
  have np: "\<not> is_preflight unknown_request"
    and u: "url_path unknown_request = Some ''/api/unknownservice/x''"
    by (simp_all add: is_preflight_def unknown_request_def example_request_def)
  have a: "resolve routes (http_method unknown_request) (scope_path unknown_request) = NoMatch"
    by (simp add: routes_def unknown_request_def example_request_def)
  have b: "resolve routes (http_method unknown_request) (toggle_slash (scope_path unknown_request)) = NoMatch"
    by (simp add: routes_def unknown_request_def example_request_def toggle_slash_def)
  have b': "scope_path unknown_request = ''/''
           \<or> resolve routes (http_method unknown_request) (toggle_slash (scope_path unknown_request)) = NoMatch"
    using b by blast
  from no_route_not_found[OF np u a b', of example_env example_world] np u a b
  show ?thesis by blast
qed

text \<open>
  Claim C3 as the specification states it fails. With the counter store unreachable, a
  request for \<^verbatim>\<open>/api/users/42\<close> is answered 500 with the plain text
  \<^verbatim>\<open>Internal Server Error\<close>, not 503 with a reason.
\<close>

theorem store_down_counterexample:
  "status_code (fst (app example_env example_request (example_world\<lparr>store_up := False\<rparr>))) = 500
   \<and> status_code (fst (app example_env example_request (example_world\<lparr>store_up := False\<rparr>))) \<noteq> 503
   \<and> resp_content (fst (app example_env example_request (example_world\<lparr>store_up := False\<rparr>)))
        = TextBody ''Internal Server Error''"
proof -
  have d: "\<not> store_up (example_world\<lparr>store_up := False\<rparr>)" by simp
  show ?thesis
    unfolding app_store_down(1)[OF example_admitted(1,2,3,4) d]
    by (simp add: internal_server_error_def)
qed

text \<open>
  Claim C3, amended. For every request of the proxied route made while the counter store is
  unreachable, \<^verbatim>\<open>rate_limiter\<close> raises the store's connection error, neither admitting
  nor rejecting. Nothing in the pipeline catches it: no outbound call is made, the counters
  are unchanged, and the client gets the framework's 500 \<^verbatim>\<open>Internal Server Error\<close>.
\<close>

theorem store_down_unhandled:
  assumes "match_path (PathParam ''/api/users/'') (scope_path request) = Some param"
      and "http_method request \<in> set [''GET'', ''POST'', ''PUT'', ''DELETE'']"
      and "client_host request = Some ip"
      and "url_path request = Some p"
      and "\<not> store_up w"
  shows "fst (rate_limiter request w)
           = Inl (RedisConnectionError ''Error connecting to the counter store'')
       \<and> fst (app e request w) = internal_server_error
       \<and> status_code (fst (app e request w)) = 500
       \<and> resp_content (fst (app e request w)) = TextBody ''Internal Server Error''
       \<and> sent (snd (app e request w)) = sent w
       \<and> counters (snd (app e request w)) = counters w"
  by (simp add: app_store_down[OF assms] rate_limiter_down[OF assms(3,4,5)] internal_server_error_def)

theorem store_down_unhandled_witness:
  "match_path (PathParam ''/api/users/'') (scope_path example_request) = Some ''42''
   \<and> http_method example_request \<in> set [''GET'', ''POST'', ''PUT'', ''DELETE'']
   \<and> client_host example_request = Some ''10.0.0.1''
   \<and> url_path example_request = Some ''/api/users/42''
   \<and> \<not> store_up (example_world\<lparr>store_up := False\<rparr>)
   \<and> fst (app example_env example_request (example_world\<lparr>store_up := False\<rparr>)) = internal_server_error
   \<and> sent (snd (app example_env example_request (example_world\<lparr>store_up := False\<rparr>)))
       = sent (example_world\<lparr>store_up := False\<rparr>)"
proof -
  have d: "\<not> store_up (example_world\<lparr>store_up := False\<rparr>)" by simp
  from store_down_unhandled[OF example_admitted(1,2,3,4) d, of example_env] example_admitted(1,2,3,4) d
  show ?thesis by blast
qed

text \<open>
  Claim C4 as the specification states it fails. A backend that answers
  \<^verbatim>\<open>/api/users/42\<close> with the body \<^verbatim>\<open><html>\<close> makes the pipeline answer 500 with
  the plain text \<^verbatim>\<open>Internal Server Error\<close>, not 502 with a reason.
\<close>

theorem malformed_body_counterexample:
  "status_code (fst (app (example_env\<lparr>backend := (\<lambda>call. Replies [5] (example_reply\<lparr>b_content := ''<html>''\<rparr>))\<rparr>)
                      example_request example_world)) = 500
   \<and> status_code (fst (app (example_env\<lparr>backend := (\<lambda>call. Replies [5] (example_reply\<lparr>b_content := ''<html>''\<rparr>))\<rparr>)
                      example_request example_world)) \<noteq> 502
   \<and> resp_content (fst (app (example_env\<lparr>backend := (\<lambda>call. Replies [5] (example_reply\<lparr>b_content := ''<html>''\<rparr>))\<rparr>)
                      example_request example_world)) = TextBody ''Internal Server Error''"
proof -
  let ?e = "example_env\<lparr>backend := (\<lambda>call. Replies [5] (example_reply\<lparr>b_content := ''<html>''\<rparr>))\<rparr>"
  let ?call = "\<lparr>o_method = ''GET'', o_url = ''http://localhost:3000/api/users/42'',
           o_headers = [(''accept'', ''application/json'')],
           o_params = Some [(''verbose'', ''1'')], o_content = None\<rparr>"
  have us: "USER_SERVICE_URL ?e = ''http://localhost:3000''" by (simp add: example_env_def)
  have oc: "outbound_call (USER_SERVICE_URL ?e @ ''/api/users/'' @ ''42'') example_request = Some ?call"
    unfolding us by (rule example_call)
  have bk: "backend ?e ?call = Replies [5] (example_reply\<lparr>b_content := ''<html>''\<rparr>)"
    by simp
  have t: "\<not> list_ex (\<lambda>d. http_client_timeout < d) [5]" by (simp add: http_client_timeout_def)
  have pr: "fst (proxy_request ?e (USER_SERVICE_URL ?e) (''/api/users/'' @ ''42'') example_request example_world)
              = Inl JSONDecodeError"
    unfolding proxy_request_reply[OF oc bk t, of example_world]
    by (simp add: example_env_def example_reply_def)
  show ?thesis
    unfolding app_admitted(1)[OF example_admitted(1,2,6), of ?e] pr
    by (simp add: internal_server_error_def)
qed

text \<open>
  Claim C4, amended. For every forwarded request whose backend reply arrives without a
  timeout and with a body that \<^verbatim>\<open>response.json()\<close> cannot decode,
  \<^verbatim>\<open>proxy_request\<close> raises the decoder's error after the outbound call has been made.
  The error is not an \<^verbatim>\<open>httpx.RequestError\<close>, so nothing catches it, and an admitted
  request of the proxied route is answered with the framework's 500
  \<^verbatim>\<open>Internal Server Error\<close>.
\<close>

theorem malformed_body_unhandled:
  assumes "outbound_call (s @ p) request = Some call"
      and "backend e call = Replies waits r"
      and "\<not> list_ex (\<lambda>d. http_client_timeout < d) waits"
      and "json_loads e (b_content r) = None"
  shows "fst (proxy_request e s p request w) = Inl JSONDecodeError
       \<and> sent (snd (proxy_request e s p request w)) = sent w @ [call]
       \<and> (match_path (PathParam ''/api/users/'') (scope_path request) = Some param
            \<and> fst (rate_limiter request w) = Inr ()
            \<and> s = USER_SERVICE_URL e \<and> p = ''/api/users/'' @ param \<longrightarrow>
          fst (app e request w) = internal_server_error
          \<and> status_code (fst (app e request w)) = 500
          \<and> resp_content (fst (app e request w)) = TextBody ''Internal Server Error'')"
proof -
  have pr: "fst (proxy_request e s p request w') = Inl JSONDecodeError" for w'
    by (simp add: proxy_request_reply[OF assms(1,2,3)] assms(4))
  have sn: "sent (snd (proxy_request e s p request w)) = sent w @ [call]"
    by (simp add: proxy_request_sent assms(1))
  have m: "http_method request \<in> set [''GET'', ''POST'', ''PUT'', ''DELETE'']"
    by (rule outbound_call_supported[OF assms(1)])
  have ap: "match_path (PathParam ''/api/users/'') (scope_path request) = Some param
            \<and> fst (rate_limiter request w) = Inr ()
            \<and> s = USER_SERVICE_URL e \<and> p = ''/api/users/'' @ param \<longrightarrow>
          fst (app e request w) = internal_server_error
          \<and> status_code (fst (app e request w)) = 500
          \<and> resp_content (fst (app e request w)) = TextBody ''Internal Server Error''"
  proof
    assume h: "match_path (PathParam ''/api/users/'') (scope_path request) = Some param
            \<and> fst (rate_limiter request w) = Inr ()
            \<and> s = USER_SERVICE_URL e \<and> p = ''/api/users/'' @ param"
    then have h1: "match_path (PathParam ''/api/users/'') (scope_path request) = Some param"
      and h2: "fst (rate_limiter request w) = Inr ()"
      and h5: "s = USER_SERVICE_URL e" and h6: "p = ''/api/users/'' @ param"
      by blast+
    have "fst (app e request w) = internal_server_error"
      using pr[of w] unfolding h5 h6 by (simp add: app_admitted(1)[OF h1 m h2])
    then show "fst (app e request w) = internal_server_error
          \<and> status_code (fst (app e request w)) = 500
          \<and> resp_content (fst (app e request w)) = TextBody ''Internal Server Error''"
      by (simp add: internal_server_error_def)
  qed
  from pr[of w] sn ap show ?thesis by blast
qed

theorem malformed_body_unhandled_witness:
  "outbound_call (''http://localhost:3000'' @ ''/api/users/'' @ ''42'') example_request =
     Some \<lparr>o_method = ''GET'', o_url = ''http://localhost:3000/api/users/42'',
           o_headers = [(''accept'', ''application/json'')],
           o_params = Some [(''verbose'', ''1'')], o_content = None\<rparr>
   \<and> \<not> list_ex (\<lambda>d. http_client_timeout < d) [5]
   \<and> json_loads example_env ''<html>'' = None
   \<and> fst (proxy_request (example_env\<lparr>backend := (\<lambda>call. Replies [5] (example_reply\<lparr>b_content := ''<html>''\<rparr>))\<rparr>)
             ''http://localhost:3000'' (''/api/users/'' @ ''42'') example_request example_world)
       = Inl JSONDecodeError"
proof -
  let ?e = "example_env\<lparr>backend := (\<lambda>call. Replies [5] (example_reply\<lparr>b_content := ''<html>''\<rparr>))\<rparr>"
  let ?call = "\<lparr>o_method = ''GET'', o_url = ''http://localhost:3000/api/users/42'',
           o_headers = [(''accept'', ''application/json'')],
           o_params = Some [(''verbose'', ''1'')], o_content = None\<rparr>"
  have bk: "backend ?e ?call = Replies [5] (example_reply\<lparr>b_content := ''<html>''\<rparr>)" by simp
  have t: "\<not> list_ex (\<lambda>d. http_client_timeout < d) [5]" by (simp add: http_client_timeout_def)
  have j0: "json_loads example_env ''<html>'' = None" by (simp add: example_env_def)
  have j: "json_loads ?e (b_content (example_reply\<lparr>b_content := ''<html>''\<rparr>)) = None"
    by (simp add: example_env_def)
  show ?thesis
    using malformed_body_unhandled[OF example_call bk t j, of example_world "[]"] example_call t j0
    by blast
qed

text \<open>
  Claim C5 as the specification states it fails when a downstream stage raises. With the
  counter store unreachable the request for \<^verbatim>\<open>/api/users/42\<close> ends with status 500,
  and neither the count series at (GET, /api/users, 500) nor the duration series at
  (GET, /api/users) has received anything.
\<close>

theorem metrics_on_raise_counterexample:
  "status_code (fst (app example_env example_request (example_world\<lparr>store_up := False\<rparr>))) = 500
   \<and> REQUEST_COUNT (snd (app example_env example_request (example_world\<lparr>store_up := False\<rparr>)))
        (''GET'', ''/api/users'', 500) = 0
   \<and> REQUEST_DURATION (snd (app example_env example_request (example_world\<lparr>store_up := False\<rparr>)))
        (''GET'', ''/api/users'') = []"
proof -
  have d: "\<not> store_up (example_world\<lparr>store_up := False\<rparr>)" by simp
  note f = app_store_down[OF example_admitted(1,2,3,4) d, of example_env]
  show ?thesis
    unfolding f by (simp add: internal_server_error_def example_world_def)
qed

text \<open>
  Claim C5, amended. Whenever the wrapped stages hand \<^verbatim>\<open>metrics_middleware\<close> a
  response (a relayed backend response, or the response made from an \<^verbatim>\<open>HTTPException\<close>:
  404, 405, 429, 503), the client gets that response, the count series has exactly one more
  increment, at (method, base endpoint, status of the response), and the duration series has
  exactly one more observation, the elapsed time, at (method, base endpoint). When the wrapped
  stages raise instead, the client gets the 500 and neither series is touched. In both cases
  the gauge is back at its value. Neither series is touched either when the middleware
  itself raises before it calls the wrapped stages.
\<close>

theorem metrics_recorded_when_response:
  "(url_path request = Some u
    \<and> cors_layer request (exception_layer e) (w\<lparr>ACTIVE_REQUESTS := ACTIVE_REQUESTS w + 1\<rparr>)
        = (Inr resp, w2) \<longrightarrow>
      fst (app e request w) = resp
    \<and> REQUEST_COUNT (snd (app e request w))
        = inc_at (REQUEST_COUNT w) (http_method request, get_base_endpoint u, status_code resp)
    \<and> REQUEST_DURATION (snd (app e request w))
        = (REQUEST_DURATION w)
            ((http_method request, get_base_endpoint u) :=
               REQUEST_DURATION w (http_method request, get_base_endpoint u)
                 @ [time_exit e - time_entry e])
    \<and> ACTIVE_REQUESTS (snd (app e request w)) = ACTIVE_REQUESTS w)
   \<and> (url_path request = Some u
    \<and> cors_layer request (exception_layer e) (w\<lparr>ACTIVE_REQUESTS := ACTIVE_REQUESTS w + 1\<rparr>)
        = (Inl x, w2) \<longrightarrow>
      fst (app e request w) = internal_server_error
    \<and> REQUEST_COUNT (snd (app e request w)) = REQUEST_COUNT w
    \<and> REQUEST_DURATION (snd (app e request w)) = REQUEST_DURATION w
    \<and> ACTIVE_REQUESTS (snd (app e request w)) = ACTIVE_REQUESTS w)
   \<and> (url_path request = None \<longrightarrow>
      fst (app e request w) = internal_server_error
    \<and> REQUEST_COUNT (snd (app e request w)) = REQUEST_COUNT w
    \<and> REQUEST_DURATION (snd (app e request w)) = REQUEST_DURATION w)"
proof -
  let ?w1 = "w\<lparr>ACTIVE_REQUESTS := ACTIVE_REQUESTS w + 1\<rparr>"
  have f: "REQUEST_COUNT (snd (cors_layer request (exception_layer e) ?w1)) = REQUEST_COUNT w"
          "REQUEST_DURATION (snd (cors_layer request (exception_layer e) ?w1)) = REQUEST_DURATION w"
    by (simp_all add: cors_layer_frame)
  show ?thesis
  proof (intro conjI impI)
    assume a0: "url_path request = Some u
      \<and> cors_layer request (exception_layer e) ?w1 = (Inr resp, w2)"
    then have up: "url_path request = Some u"
      and a: "cors_layer request (exception_layer e) ?w1 = (Inr resp, w2)" by blast+
    from f a have g: "REQUEST_COUNT w2 = REQUEST_COUNT w" "REQUEST_DURATION w2 = REQUEST_DURATION w"
      by simp_all
    show "fst (app e request w) = resp"
      by (simp add: app_def metrics_middleware_def Let_def a up)
    show "REQUEST_COUNT (snd (app e request w))
        = inc_at (REQUEST_COUNT w) (http_method request, get_base_endpoint u, status_code resp)"
      by (simp add: app_def metrics_middleware_def Let_def a g up)
    show "REQUEST_DURATION (snd (app e request w))
        = (REQUEST_DURATION w)
            ((http_method request, get_base_endpoint u) :=
               REQUEST_DURATION w (http_method request, get_base_endpoint u)
                 @ [time_exit e - time_entry e])"
      by (simp add: app_def metrics_middleware_def Let_def a g up)
    show "ACTIVE_REQUESTS (snd (app e request w)) = ACTIVE_REQUESTS w"
      by (rule app_gauge[OF up])
  next
    assume a0: "url_path request = Some u
      \<and> cors_layer request (exception_layer e) ?w1 = (Inl x, w2)"
    then have up: "url_path request = Some u"
      and a: "cors_layer request (exception_layer e) ?w1 = (Inl x, w2)" by blast+
    from f a have g: "REQUEST_COUNT w2 = REQUEST_COUNT w" "REQUEST_DURATION w2 = REQUEST_DURATION w"
      by simp_all
    show "fst (app e request w) = internal_server_error"
      by (simp add: app_def metrics_middleware_def Let_def a up)
    show "REQUEST_COUNT (snd (app e request w)) = REQUEST_COUNT w"
      by (simp add: app_def metrics_middleware_def Let_def a g up)
    show "REQUEST_DURATION (snd (app e request w)) = REQUEST_DURATION w"
      by (simp add: app_def metrics_middleware_def Let_def a g up)
    show "ACTIVE_REQUESTS (snd (app e request w)) = ACTIVE_REQUESTS w"
      by (rule app_gauge[OF up])
  next
    assume n: "url_path request = None"
    show "fst (app e request w) = internal_server_error"
      "REQUEST_COUNT (snd (app e request w)) = REQUEST_COUNT w"
      "REQUEST_DURATION (snd (app e request w)) = REQUEST_DURATION w"
      by (simp_all add: app_bad_url[OF n])
  qed
qed

theorem metrics_recorded_when_response_witness:
  "REQUEST_COUNT (snd (app example_env example_request example_world)) (''GET'', ''/api/users'', 200) = 1
   \<and> REQUEST_DURATION (snd (app example_env example_request example_world)) (''GET'', ''/api/users'') = [7]
   \<and> ACTIVE_REQUESTS (snd (app example_env example_request example_world)) = 0
   \<and> REQUEST_COUNT (snd (app example_env example_request (example_world\<lparr>store_up := False\<rparr>)))
        = REQUEST_COUNT (example_world\<lparr>store_up := False\<rparr>)
   \<and> REQUEST_COUNT (snd (app example_env bad_host_request example_world))
        = REQUEST_COUNT example_world"
proof -
  let ?w1 = "example_world\<lparr>ACTIVE_REQUESTS := ACTIVE_REQUESTS example_world + 1\<rparr>"
  let ?d = "example_world\<lparr>store_up := False\<rparr>"
  let ?d1 = "?d\<lparr>ACTIVE_REQUESTS := ACTIVE_REQUESTS ?d + 1\<rparr>"
  have be: "get_base_endpoint ''/api/users/42'' = ''/api/users''"
    by (simp add: get_base_endpoint_def)
  have m: "http_method example_request = ''GET''" by (simp add: example_request_def)
  have z: "REQUEST_COUNT example_world = (\<lambda>labels. 0)" "REQUEST_DURATION example_world = (\<lambda>labels. [])"
    "ACTIVE_REQUESTS example_world = 0"
    by (simp_all add: example_world_def)
  have tm: "time_exit example_env - time_entry example_env = 7" by (simp add: example_env_def)
  have dn: "\<not> store_up ?d1" by simp
  have rtd: "fst (router example_env example_request ?d1)
              = Inl (RedisConnectionError ''Error connecting to the counter store'')"
    unfolding router_users[OF example_admitted(1,2)] rate_limiter_down[OF example_admitted(3,4) dn]
    by simp
  have el: "cors_layer example_request (exception_layer example_env) ?d1
              = (Inl (RedisConnectionError ''Error connecting to the counter store''),
                 snd (router example_env example_request ?d1))"
    unfolding prod_eq_iff cors_layer_fst cors_layer_snd rtd
    using four_not_preflight[OF example_admitted(2)] by simp
  have bu: "url_path bad_host_request = None" by (simp add: bad_host_request_def)
  from metrics_recorded_when_response[of example_request "''/api/users/42''" example_env example_world
         "JSONResponse (JObj []) 200"
         "snd (cors_layer example_request (exception_layer example_env) ?w1)"]
       example_response example_admitted(4)
  have a: "REQUEST_COUNT (snd (app example_env example_request example_world)) (''GET'', ''/api/users'', 200) = 1
   \<and> REQUEST_DURATION (snd (app example_env example_request example_world)) (''GET'', ''/api/users'') = [7]
   \<and> ACTIVE_REQUESTS (snd (app example_env example_request example_world)) = 0"
    by (simp add: be m z tm inc_at_def JSONResponse_def)
  from metrics_recorded_when_response[of example_request "''/api/users/42''" example_env ?d _
         "snd (router example_env example_request ?d1)"
         "RedisConnectionError ''Error connecting to the counter store''"] el example_admitted(4)
  have b: "REQUEST_COUNT (snd (app example_env example_request ?d)) = REQUEST_COUNT ?d"
    by simp
  from metrics_recorded_when_response[of bad_host_request _ example_env example_world] bu
  have c: "REQUEST_COUNT (snd (app example_env bad_host_request example_world))
        = REQUEST_COUNT example_world"
    by simp
  from a b c show ?thesis by blast
qed

text \<open>
  Claim C6 fails on the code. \<^verbatim>\<open>metrics_middleware\<close> increments the gauge and reads
  \<^verbatim>\<open>request.url.path\<close> before it enters the \<^verbatim>\<open>try\<close> whose \<^verbatim>\<open>finally\<close> holds
  the decrement. For the request with the \<^verbatim>\<open>Host\<close> header \<^verbatim>\<open>[\<close> that read raises:
  the request ends with status 500 and the gauge stays one above its value before the
  request. (For a request whose URL can be split the gauge does return to its value: lemma
  \<open>app_gauge\<close>.)
\<close>

theorem active_requests_leak:
  "url_path bad_host_request = None
   \<and> status_code (fst (app example_env bad_host_request example_world)) = 500
   \<and> ACTIVE_REQUESTS (snd (app example_env bad_host_request example_world))
       = ACTIVE_REQUESTS example_world + 1
   \<and> ACTIVE_REQUESTS (snd (app example_env bad_host_request example_world))
       \<noteq> ACTIVE_REQUESTS example_world"
proof -
  have bu: "url_path bad_host_request = None" by (simp add: bad_host_request_def)
  show ?thesis
    unfolding app_bad_url[OF bu] using bu by (simp add: internal_server_error_def)
qed

text \<open>
  Claim C7 as the specification states it fails. The request has the header
  \<^verbatim>\<open>accept\<close> twice and the query parameter \<^verbatim>\<open>tag\<close> twice, and its path ends in a
  line feed. The call that goes out carries one \<^verbatim>\<open>accept\<close> header, one \<^verbatim>\<open>tag\<close>
  parameter and a URL without the line feed: not the inbound headers less \<^verbatim>\<open>host\<close>, not
  the inbound query parameters, and not the base URL followed by the whole path.
\<close>

theorem forwarded_call_counterexample:
  "sent (snd (app example_env repeating_request example_world))
     = [\<lparr>o_method = ''GET'', o_url = ''http://localhost:3000/api/users/42'',
          o_headers = [(''accept'', ''text/html'')],
          o_params = Some [(''tag'', ''b'')], o_content = None\<rparr>]
   \<and> ''http://localhost:3000/api/users/42''
       \<noteq> USER_SERVICE_URL example_env @ scope_path repeating_request
   \<and> [(''accept'', ''text/html'')]
       \<noteq> filter (\<lambda>(k, v). k \<noteq> ''host'') (headers repeating_request)
   \<and> [(''tag'', ''b'')] \<noteq> query_params repeating_request"
proof -
  have us: "USER_SERVICE_URL example_env = ''http://localhost:3000''" by (simp add: example_env_def)
  have oc: "outbound_call (USER_SERVICE_URL example_env @ ''/api/users/'' @ ''42'') repeating_request
     = Some \<lparr>o_method = ''GET'', o_url = ''http://localhost:3000/api/users/42'',
          o_headers = [(''accept'', ''text/html'')],
          o_params = Some [(''tag'', ''b'')], o_content = None\<rparr>"
    unfolding us
    by (simp add: outbound_call_def forwarded_headers_def params_items_def repeating_request_def
          example_request_def Let_def AList.delete_eq)
  have a: "sent (snd (app example_env repeating_request example_world))
     = [\<lparr>o_method = ''GET'', o_url = ''http://localhost:3000/api/users/42'',
          o_headers = [(''accept'', ''text/html'')],
          o_params = Some [(''tag'', ''b'')], o_content = None\<rparr>]"
    unfolding app_admitted(2)[OF repeating_admitted, of example_env] oc
    by (simp add: example_world_def)
  have b: "''http://localhost:3000/api/users/42''
       \<noteq> USER_SERVICE_URL example_env @ scope_path repeating_request"
    unfolding us by (simp add: repeating_request_def)
  have c: "[(''accept'', ''text/html'')]
       \<noteq> filter (\<lambda>(k, v). k \<noteq> ''host'') (headers repeating_request)"
    by (simp add: repeating_request_def)
  have d: "[(''tag'', ''b'')] \<noteq> query_params repeating_request"
    by (simp add: repeating_request_def)
  from a b c d show ?thesis by blast
qed

text \<open>
  Claim C7, amended. For a request with one of the four supported methods,
  \<^verbatim>\<open>proxy_request\<close> hands the client exactly one call: with the method of the request,
  the URL \<open>service_url @ p\<close>, the headers \<^verbatim>\<open>dict(request.headers)\<close> less \<^verbatim>\<open>host\<close>
  (each name once, with the value of its first line), for GET only the query parameters as a
  mapping (each name once, with its last value), and for POST and PUT only the body,
  unmodified. When no header name repeats, the headers are the inbound ones without the
  \<^verbatim>\<open>host\<close> line; when no parameter name repeats, the parameters are the inbound ones.
  \<^verbatim>\<open>user_service_proxy\<close> passes the prefix \<^verbatim>\<open>/api/users/\<close> followed by the path
  parameter, so an admitted request of the proxied route is sent to the configured base URL
  followed by its decoded path, less the line feed if the path ends in one.
\<close>

theorem forwarded_call_shape:
  assumes "http_method request \<in> set [''GET'', ''POST'', ''PUT'', ''DELETE'']"
  shows "sent (snd (proxy_request e service_url p request w))
           = sent w @ [\<lparr>o_method = http_method request,
                        o_url = service_url @ p,
                        o_headers = forwarded_headers request,
                        o_params = (if http_method request = ''GET''
                                    then Some (params_items (query_params request)) else None),
                        o_content = (if http_method request = ''POST'' \<or> http_method request = ''PUT''
                                     then Some (body request) else None)\<rparr>]
       \<and> map_of (forwarded_headers request) = (map_of (headers request))(''host'' := None)
       \<and> distinct (map fst (forwarded_headers request))
       \<and> (distinct (map fst (headers request)) \<longrightarrow>
            forwarded_headers request = filter (\<lambda>(k, v). k \<noteq> ''host'') (headers request))
       \<and> map_of (params_items (query_params request)) = map_of (rev (query_params request))
       \<and> distinct (map fst (params_items (query_params request)))
       \<and> (distinct (map fst (query_params request)) \<longrightarrow>
            params_items (query_params request) = query_params request)
       \<and> user_service_proxy e param request w
           = proxy_request e (USER_SERVICE_URL e) (''/api/users/'' @ param) request w
       \<and> (match_path (PathParam ''/api/users/'') (scope_path request) = Some param
            \<and> fst (rate_limiter request w) = Inr () \<longrightarrow>
          sent (snd (app e request w))
            = sent w @ [\<lparr>o_method = http_method request,
                         o_url = USER_SERVICE_URL e @ ''/api/users/'' @ param,
                         o_headers = forwarded_headers request,
                         o_params = (if http_method request = ''GET''
                                     then Some (params_items (query_params request)) else None),
                         o_content = (if http_method request = ''POST'' \<or> http_method request = ''PUT''
                                      then Some (body request) else None)\<rparr>]
          \<and> (scope_path request = ''/api/users/'' @ param
               \<or> scope_path request = ''/api/users/'' @ param @ [CHR 0x0A]))"
proof -
  have a: "sent (snd (proxy_request e service_url p request w))
           = sent w @ [\<lparr>o_method = http_method request,
                        o_url = service_url @ p,
                        o_headers = forwarded_headers request,
                        o_params = (if http_method request = ''GET''
                                    then Some (params_items (query_params request)) else None),
                        o_content = (if http_method request = ''POST'' \<or> http_method request = ''PUT''
                                     then Some (body request) else None)\<rparr>]"
    by (simp add: proxy_request_sent outbound_call_shape[OF assms])
  have b: "distinct (map fst (headers request)) \<longrightarrow>
            forwarded_headers request = filter (\<lambda>(k, v). k \<noteq> ''host'') (headers request)"
    using forwarded_headers_filter by blast
  have b2: "distinct (map fst (query_params request)) \<longrightarrow>
            params_items (query_params request) = query_params request"
    using params_items_id by blast
  have c: "user_service_proxy e param request w
           = proxy_request e (USER_SERVICE_URL e) (''/api/users/'' @ param) request w"
    by (simp add: user_service_proxy_def)
  have d: "match_path (PathParam ''/api/users/'') (scope_path request) = Some param
            \<and> fst (rate_limiter request w) = Inr () \<longrightarrow>
          sent (snd (app e request w))
            = sent w @ [\<lparr>o_method = http_method request,
                         o_url = USER_SERVICE_URL e @ ''/api/users/'' @ param,
                         o_headers = forwarded_headers request,
                         o_params = (if http_method request = ''GET''
                                     then Some (params_items (query_params request)) else None),
                         o_content = (if http_method request = ''POST'' \<or> http_method request = ''PUT''
                                      then Some (body request) else None)\<rparr>]
          \<and> (scope_path request = ''/api/users/'' @ param
               \<or> scope_path request = ''/api/users/'' @ param @ [CHR 0x0A])"
  proof
    assume h: "match_path (PathParam ''/api/users/'') (scope_path request) = Some param
            \<and> fst (rate_limiter request w) = Inr ()"
    then have h1: "match_path (PathParam ''/api/users/'') (scope_path request) = Some param"
      and h2: "fst (rate_limiter request w) = Inr ()"
      by blast+
    have s: "sent (snd (app e request w))
            = sent w @ [\<lparr>o_method = http_method request,
                         o_url = USER_SERVICE_URL e @ ''/api/users/'' @ param,
                         o_headers = forwarded_headers request,
                         o_params = (if http_method request = ''GET''
                                     then Some (params_items (query_params request)) else None),
                         o_content = (if http_method request = ''POST'' \<or> http_method request = ''PUT''
                                      then Some (body request) else None)\<rparr>]"
      unfolding app_admitted(2)[OF h1 assms h2] outbound_call_shape[OF assms]
      by simp
    from s match_users_path[OF h1]
    show "sent (snd (app e request w))
            = sent w @ [\<lparr>o_method = http_method request,
                         o_url = USER_SERVICE_URL e @ ''/api/users/'' @ param,
                         o_headers = forwarded_headers request,
                         o_params = (if http_method request = ''GET''
                                     then Some (params_items (query_params request)) else None),
                         o_content = (if http_method request = ''POST'' \<or> http_method request = ''PUT''
                                      then Some (body request) else None)\<rparr>]
          \<and> (scope_path request = ''/api/users/'' @ param
               \<or> scope_path request = ''/api/users/'' @ param @ [CHR 0x0A])"
      by blast
  qed
  from a forwarded_headers_lookup forwarded_headers_distinct b
       params_items_lookup params_items_distinct b2 c d
  show ?thesis by blast
qed

theorem forwarded_call_shape_witness:
  "http_method example_request \<in> set [''GET'', ''POST'', ''PUT'', ''DELETE'']
   \<and> match_path (PathParam ''/api/users/'') (scope_path example_request) = Some ''42''
   \<and> fst (rate_limiter example_request example_world) = Inr ()
   \<and> distinct (map fst (headers example_request))
   \<and> sent (snd (app example_env example_request example_world))
       = [\<lparr>o_method = ''GET'', o_url = ''http://localhost:3000/api/users/42'',
            o_headers = [(''accept'', ''application/json'')],
            o_params = Some [(''verbose'', ''1'')], o_content = None\<rparr>]"
proof -
  have dh: "distinct (map fst (headers example_request))"
    by (simp add: example_request_def)
  have v: "http_method example_request = ''GET''" "query_params example_request = [(''verbose'', ''1'')]"
    "filter (\<lambda>(k, v). k \<noteq> ''host'') (headers example_request) = [(''accept'', ''application/json'')]"
    by (simp_all add: example_request_def)
  have s: "sent example_world = []" "USER_SERVICE_URL example_env = ''http://localhost:3000''"
    by (simp_all add: example_world_def example_env_def)
  note t = forwarded_call_shape[OF example_admitted(2), of example_env "[]" "[]" example_world "''42''"]
  from t dh have fh: "forwarded_headers example_request = [(''accept'', ''application/json'')]"
    by (simp add: v)
  have pi: "params_items [(''verbose'', ''1'')] = [(''verbose'', ''1'')]"
    by (simp add: params_items_def)
  from t example_admitted(1,6)
  have "sent (snd (app example_env example_request example_world))
            = sent example_world @ [\<lparr>o_method = http_method example_request,
                         o_url = USER_SERVICE_URL example_env @ ''/api/users/'' @ ''42'',
                         o_headers = forwarded_headers example_request,
                         o_params = (if http_method example_request = ''GET''
                                     then Some (params_items (query_params example_request)) else None),
                         o_content = (if http_method example_request = ''POST'' \<or> http_method example_request = ''PUT''
                                      then Some (body example_request) else None)\<rparr>]"
    by blast
  then show ?thesis
    using example_admitted(1,2,6) dh by (simp add: fh pi v s)
qed

text \<open>
  Claim C8 as the specification states it fails. The preflight \<^verbatim>\<open>OPTIONS\<close> request for
  \<^verbatim>\<open>/api/users/42\<close> is on the proxied route and its method is none of the four; the CORS
  layer answers it 200 \<^verbatim>\<open>OK\<close>, not 405. A \<^verbatim>\<open>PATCH\<close> with a \<^verbatim>\<open>Host\<close> header
  from which no URL can be split ends in 500.
\<close>

theorem unsupported_method_counterexample:
  "http_method preflight_request \<notin> set [''GET'', ''POST'', ''PUT'', ''DELETE'']
   \<and> match_path (PathParam ''/api/users/'') (scope_path preflight_request) = Some ''42''
   \<and> status_code (fst (app example_env preflight_request example_world)) = 200
   \<and> resp_content (fst (app example_env preflight_request example_world)) = TextBody ''OK''
   \<and> http_method (bad_host_request\<lparr>http_method := ''PATCH''\<rparr>)
        \<notin> set [''GET'', ''POST'', ''PUT'', ''DELETE'']
   \<and> match_path (PathParam ''/api/users/'') (scope_path (bad_host_request\<lparr>http_method := ''PATCH''\<rparr>))
        = Some ''42''
   \<and> status_code (fst (app example_env (bad_host_request\<lparr>http_method := ''PATCH''\<rparr>) example_world)) = 500"
proof -
  have a: "http_method preflight_request \<notin> set [''GET'', ''POST'', ''PUT'', ''DELETE'']"
    by (simp add: preflight_request_def)
  have b: "match_path (PathParam ''/api/users/'') (scope_path preflight_request) = Some ''42''"
    by (simp add: preflight_request_def example_request_def dot_star_end_def)
  have pp: "is_preflight preflight_request"
    and pu: "url_path preflight_request = Some ''/api/users/42''"
    by (simp_all add: is_preflight_def preflight_request_def example_request_def)
  have c: "status_code (fst (app example_env preflight_request example_world)) = 200
     \<and> resp_content (fst (app example_env preflight_request example_world)) = TextBody ''OK''"
    unfolding app_preflight(1)[OF pp pu]
    by (simp add: preflight_response_def preflight_request_def ALL_METHODS_def Let_def)
  let ?b = "bad_host_request\<lparr>http_method := ''PATCH''\<rparr>"
  have d: "http_method ?b \<notin> set [''GET'', ''POST'', ''PUT'', ''DELETE'']" by simp
  have e: "match_path (PathParam ''/api/users/'') (scope_path ?b) = Some ''42''"
    by (simp add: bad_host_request_def example_request_def dot_star_end_def)
  have bu: "url_path ?b = None" by (simp add: bad_host_request_def)
  have f: "status_code (fst (app example_env ?b example_world)) = 500"
    unfolding app_bad_url[OF bu] by (simp add: internal_server_error_def)
  from a b c d e f show ?thesis by blast
qed

text \<open>
  Claim C8, amended. For a request whose method is none of GET, POST, PUT, DELETE,
  \<^verbatim>\<open>proxy_request\<close> raises the 405 without handing anything to the HTTP client. A
  request of the proxied route with such a method, whose URL can be split and which is not a
  CORS preflight, is answered 405 by the pipeline, with no outbound call and with the counter
  store untouched. A preflight is answered by the CORS layer itself, with 200 or 400, also
  with no outbound call and with the counter store untouched.
\<close>

theorem unsupported_method_405:
  assumes "http_method request \<notin> set [''GET'', ''POST'', ''PUT'', ''DELETE'']"
  shows "fst (proxy_request e service_url p request w) = Inl (HTTPException 405 ''Method not allowed'')
       \<and> sent (snd (proxy_request e service_url p request w)) = sent w
       \<and> (match_path (PathParam ''/api/users/'') (scope_path request) = Some param
            \<and> url_path request = Some u \<and> \<not> is_preflight request \<longrightarrow>
            status_code (fst (app e request w)) = 405
          \<and> resp_content (fst (app e request w)) = JSONBody (JObj [(''detail'', JStr ''Method Not Allowed'')])
          \<and> sent (snd (app e request w)) = sent w
          \<and> counters (snd (app e request w)) = counters w)
       \<and> (url_path request = Some u \<and> is_preflight request \<longrightarrow>
            fst (app e request w) = preflight_response request
          \<and> (status_code (fst (app e request w)) = 200 \<or> status_code (fst (app e request w)) = 400)
          \<and> sent (snd (app e request w)) = sent w
          \<and> counters (snd (app e request w)) = counters w)"
proof -
  note oc = outbound_call_unsupported[OF assms]
  have a: "fst (proxy_request e service_url p request w) = Inl (HTTPException 405 ''Method not allowed'')"
    by (simp add: proxy_request_def Let_def oc method_not_allowed_def)
  have b: "sent (snd (proxy_request e service_url p request w)) = sent w"
    by (simp add: proxy_request_sent oc)
  have c: "match_path (PathParam ''/api/users/'') (scope_path request) = Some param
            \<and> url_path request = Some u \<and> \<not> is_preflight request \<longrightarrow>
            status_code (fst (app e request w)) = 405
          \<and> resp_content (fst (app e request w)) = JSONBody (JObj [(''detail'', JStr ''Method Not Allowed'')])
          \<and> sent (snd (app e request w)) = sent w
          \<and> counters (snd (app e request w)) = counters w"
  proof
    assume h: "match_path (PathParam ''/api/users/'') (scope_path request) = Some param
            \<and> url_path request = Some u \<and> \<not> is_preflight request"
    then have h1: "match_path (PathParam ''/api/users/'') (scope_path request) = Some param"
      and h2: "url_path request = Some u" and h3: "\<not> is_preflight request"
      by blast+
    note rt = router_partial[OF h1 assms, of e]
    show "status_code (fst (app e request w)) = 405
          \<and> resp_content (fst (app e request w)) = JSONBody (JObj [(''detail'', JStr ''Method Not Allowed'')])
          \<and> sent (snd (app e request w)) = sent w
          \<and> counters (snd (app e request w)) = counters w"
      unfolding app_fst[OF h2] app_snd[OF h2] cors_layer_fst cors_layer_snd rt using h3
      by (simp add: http_exception_handler_def JSONResponse_def)
  qed
  have d: "url_path request = Some u \<and> is_preflight request \<longrightarrow>
            fst (app e request w) = preflight_response request
          \<and> (status_code (fst (app e request w)) = 200 \<or> status_code (fst (app e request w)) = 400)
          \<and> sent (snd (app e request w)) = sent w
          \<and> counters (snd (app e request w)) = counters w"
  proof
    assume h: "url_path request = Some u \<and> is_preflight request"
    then have h2: "url_path request = Some u" and h3: "is_preflight request" by blast+
    show "fst (app e request w) = preflight_response request
          \<and> (status_code (fst (app e request w)) = 200 \<or> status_code (fst (app e request w)) = 400)
          \<and> sent (snd (app e request w)) = sent w
          \<and> counters (snd (app e request w)) = counters w"
      unfolding app_preflight[OF h3 h2]
      by (simp add: preflight_response_def Let_def)
  qed
  from a b c d show ?thesis by blast
qed

theorem unsupported_method_405_witness:
  "''PATCH'' \<notin> set [''GET'', ''POST'', ''PUT'', ''DELETE'']
   \<and> match_path (PathParam ''/api/users/'') (scope_path (example_request\<lparr>http_method := ''PATCH''\<rparr>))
       = Some ''42''
   \<and> \<not> is_preflight (example_request\<lparr>http_method := ''PATCH''\<rparr>)
   \<and> status_code (fst (app example_env (example_request\<lparr>http_method := ''PATCH''\<rparr>) example_world)) = 405
   \<and> sent (snd (app example_env (example_request\<lparr>http_method := ''PATCH''\<rparr>) example_world))
       = sent example_world
   \<and> is_preflight preflight_request
   \<and> status_code (fst (app example_env preflight_request example_world)) = 200
   \<and> sent (snd (app example_env preflight_request example_world)) = sent example_world"
proof -
  let ?r = "example_request\<lparr>http_method := ''PATCH''\<rparr>"
  have m0: "''PATCH'' \<notin> set [''GET'', ''POST'', ''PUT'', ''DELETE'']" by simp
  have m: "http_method ?r \<notin> set [''GET'', ''POST'', ''PUT'', ''DELETE'']" by simp
  have p: "match_path (PathParam ''/api/users/'') (scope_path ?r) = Some ''42''"
    by (simp add: example_request_def dot_star_end_def)
  have u: "url_path ?r = Some ''/api/users/42''" by (simp add: example_request_def)
  have np: "\<not> is_preflight ?r" by (simp add: is_preflight_def)
  from unsupported_method_405[OF m, of example_env "[]" "[]" example_world "''42''" "''/api/users/42''"]
       p u np
  have a: "status_code (fst (app example_env ?r example_world)) = 405
     \<and> sent (snd (app example_env ?r example_world)) = sent example_world"
    by blast
  have m2: "http_method preflight_request \<notin> set [''GET'', ''POST'', ''PUT'', ''DELETE'']"
    by (simp add: preflight_request_def)
  have pp: "is_preflight preflight_request"
    and pu: "url_path preflight_request = Some ''/api/users/42''"
    by (simp_all add: is_preflight_def preflight_request_def example_request_def)
  have ps: "status_code (preflight_response preflight_request) = 200"
    by (simp add: preflight_response_def preflight_request_def ALL_METHODS_def Let_def)
  from unsupported_method_405[OF m2, of example_env "[]" "[]" example_world "''42''" "''/api/users/42''"]
       pp pu
  have b: "fst (app example_env preflight_request example_world) = preflight_response preflight_request
     \<and> sent (snd (app example_env preflight_request example_world)) = sent example_world"
    by blast
  from m0 p np a pp b ps show ?thesis by simp
qed

text \<open>
  Claim C9 as the specification states it fails on its timeout half. A call on which the
  client waits twice for 16 seconds takes 32 seconds, more than the timeout of 30, and its
  reply is relayed with status 200: the timeout bounds each wait, not the call.
\<close>

theorem slow_reply_counterexample:
  "http_client_timeout < sum_list [16000, 16000]
   \<and> status_code (fst (app (example_env\<lparr>backend := (\<lambda>call. Replies [16000, 16000] example_reply)\<rparr>)
                     example_request example_world)) = 200
   \<and> status_code (fst (app (example_env\<lparr>backend := (\<lambda>call. Replies [16000, 16000] example_reply)\<rparr>)
                     example_request example_world)) \<noteq> 503"
proof -
  let ?e = "example_env\<lparr>backend := (\<lambda>call. Replies [16000, 16000] example_reply)\<rparr>"
  let ?call = "\<lparr>o_method = ''GET'', o_url = ''http://localhost:3000/api/users/42'',
           o_headers = [(''accept'', ''application/json'')],
           o_params = Some [(''verbose'', ''1'')], o_content = None\<rparr>"
  have us: "USER_SERVICE_URL ?e = ''http://localhost:3000''" by (simp add: example_env_def)
  have oc: "outbound_call (USER_SERVICE_URL ?e @ ''/api/users/'' @ ''42'') example_request = Some ?call"
    unfolding us by (rule example_call)
  have bk: "backend ?e ?call = Replies [16000, 16000] example_reply" by simp
  have t: "\<not> list_ex (\<lambda>d. http_client_timeout < d) [16000, 16000]"
    by (simp add: http_client_timeout_def)
  have pr: "fst (proxy_request ?e (USER_SERVICE_URL ?e) (''/api/users/'' @ ''42'') example_request example_world)
              = Inr (JSONResponse (JObj []) 200)"
    unfolding proxy_request_reply[OF oc bk t, of example_world]
    by (simp add: example_env_def example_reply_def)
  have a: "http_client_timeout < sum_list [16000, 16000]" by (simp add: http_client_timeout_def)
  have b: "status_code (fst (app ?e example_request example_world)) = 200"
    unfolding app_admitted(1)[OF example_admitted(1,2,6), of ?e] pr
    by (simp add: JSONResponse_def)
  from a b show ?thesis by simp
qed

text \<open>
  Claim C9, amended. When the outbound call fails below HTTP with the error text \<open>msg\<close>,
  or one single wait of the client lasts longer than its timeout of 30 seconds (30000 ms; the
  error text is then empty), \<^verbatim>\<open>proxy_request\<close> raises the 503 whose detail is
  \<^verbatim>\<open>Service unavailable: \<close> followed by the error text, and the span
  \<^verbatim>\<open>proxy_request\<close> carries \<^verbatim>\<open>error = True\<close> and \<^verbatim>\<open>error.message\<close>. An admitted
  request of the proxied route is then answered 503 with that detail, which is not a status of
  the 200 series. A call none of whose waits exceeds the timeout is not cut off, however long
  it takes in all.
\<close>

theorem network_failure_503:
  assumes "outbound_call (s @ p) request = Some call"
      and "backend e call = Fails msg
           \<or> (\<exists>waits r. backend e call = Replies waits r
                 \<and> list_ex (\<lambda>d. http_client_timeout < d) waits \<and> msg = [])"
  shows "http_client_timeout = 30 * 1000
       \<and> fst (proxy_request e s p request w)
           = Inl (HTTPException 503 (''Service unavailable: '' @ msg))
       \<and> spans (snd (proxy_request e s p request w))
           = spans w @
             [\<lparr>span_name = ''proxy_request'',
               attributes =
                 [(''http.url'', AStr (s @ p)), (''http.method'', AStr (http_method request)),
                  (''http.target'', AStr p), (''service.url'', AStr s),
                  (''error'', ABool True), (''error.message'', AStr msg)]\<rparr>]
       \<and> (match_path (PathParam ''/api/users/'') (scope_path request) = Some param
            \<and> fst (rate_limiter request w) = Inr ()
            \<and> s = USER_SERVICE_URL e \<and> p = ''/api/users/'' @ param \<longrightarrow>
          status_code (fst (app e request w)) = 503
          \<and> resp_content (fst (app e request w))
              = JSONBody (JObj [(''detail'', JStr (''Service unavailable: '' @ msg))])
          \<and> \<not> (200 \<le> status_code (fst (app e request w)) \<and> status_code (fst (app e request w)) < 300))
       \<and> (backend e other = Replies waits' r' \<and> \<not> list_ex (\<lambda>d. http_client_timeout < d) waits' \<longrightarrow>
          http_client_send e other = Inr r')"
proof -
  note fl = http_client_send_failure[OF assms(2)]
  have pr: "proxy_request e s p request w' =
           (Inl (service_unavailable msg),
            end_span ''proxy_request''
              [(''http.url'', AStr (s @ p)), (''http.method'', AStr (http_method request)),
               (''http.target'', AStr p), (''service.url'', AStr s),
               (''error'', ABool True), (''error.message'', AStr msg)]
              (w'\<lparr>sent := sent w' @ [call]\<rparr>))" for w'
    by (rule proxy_request_failure[OF assms(1) fl])
  have a: "fst (proxy_request e s p request w)
           = Inl (HTTPException 503 (''Service unavailable: '' @ msg))"
    by (simp add: pr service_unavailable_def)
  have b: "spans (snd (proxy_request e s p request w))
           = spans w @
             [\<lparr>span_name = ''proxy_request'',
               attributes =
                 [(''http.url'', AStr (s @ p)), (''http.method'', AStr (http_method request)),
                  (''http.target'', AStr p), (''service.url'', AStr s),
                  (''error'', ABool True), (''error.message'', AStr msg)]\<rparr>]"
    by (simp add: pr end_span_def)
  have m: "http_method request \<in> set [''GET'', ''POST'', ''PUT'', ''DELETE'']"
    by (rule outbound_call_supported[OF assms(1)])
  have c: "match_path (PathParam ''/api/users/'') (scope_path request) = Some param
            \<and> fst (rate_limiter request w) = Inr ()
            \<and> s = USER_SERVICE_URL e \<and> p = ''/api/users/'' @ param \<longrightarrow>
          status_code (fst (app e request w)) = 503
          \<and> resp_content (fst (app e request w))
              = JSONBody (JObj [(''detail'', JStr (''Service unavailable: '' @ msg))])
          \<and> \<not> (200 \<le> status_code (fst (app e request w)) \<and> status_code (fst (app e request w)) < 300)"
  proof
    assume h: "match_path (PathParam ''/api/users/'') (scope_path request) = Some param
            \<and> fst (rate_limiter request w) = Inr ()
            \<and> s = USER_SERVICE_URL e \<and> p = ''/api/users/'' @ param"
    then have h1: "match_path (PathParam ''/api/users/'') (scope_path request) = Some param"
      and h2: "fst (rate_limiter request w) = Inr ()"
      and h5: "s = USER_SERVICE_URL e" and h6: "p = ''/api/users/'' @ param"
      by blast+
    have "fst (app e request w)
            = (http_exception_handler 503 (''Service unavailable: '' @ msg))
                \<lparr>resp_headers := cors_send request []\<rparr>"
      using a unfolding h5 h6 by (simp add: app_admitted(1)[OF h1 m h2])
    then show "status_code (fst (app e request w)) = 503
          \<and> resp_content (fst (app e request w))
              = JSONBody (JObj [(''detail'', JStr (''Service unavailable: '' @ msg))])
          \<and> \<not> (200 \<le> status_code (fst (app e request w)) \<and> status_code (fst (app e request w)) < 300)"
      by (simp add: http_exception_handler_def JSONResponse_def)
  qed
  have d: "backend e other = Replies waits' r' \<and> \<not> list_ex (\<lambda>d. http_client_timeout < d) waits' \<longrightarrow>
          http_client_send e other = Inr r'"
    using http_client_send_reply by blast
  have t: "http_client_timeout = 30 * 1000" by (simp add: http_client_timeout_def)
  from t a b c d show ?thesis by blast
qed

theorem network_failure_503_witness:
  "status_code (fst (app (example_env\<lparr>backend := (\<lambda>call. Fails ''Connection refused'')\<rparr>)
                     example_request example_world)) = 503
   \<and> resp_content (fst (app (example_env\<lparr>backend := (\<lambda>call. Fails ''Connection refused'')\<rparr>)
                     example_request example_world))
       = JSONBody (JObj [(''detail'', JStr ''Service unavailable: Connection refused'')])
   \<and> list_ex (\<lambda>d. http_client_timeout < d) [200, 31000]
   \<and> status_code (fst (app (example_env\<lparr>backend := (\<lambda>call. Replies [200, 31000] example_reply)\<rparr>)
                     example_request example_world)) = 503"
proof -
  let ?e1 = "example_env\<lparr>backend := (\<lambda>call. Fails ''Connection refused'')\<rparr>"
  let ?e2 = "example_env\<lparr>backend := (\<lambda>call. Replies [200, 31000] example_reply)\<rparr>"
  let ?call = "\<lparr>o_method = ''GET'', o_url = ''http://localhost:3000/api/users/42'',
           o_headers = [(''accept'', ''application/json'')],
           o_params = Some [(''verbose'', ''1'')], o_content = None\<rparr>"
  have t: "list_ex (\<lambda>d. http_client_timeout < d) [200, 31000]" by (simp add: http_client_timeout_def)
  have b1: "backend ?e1 ?call = Fails ''Connection refused''
           \<or> (\<exists>waits r. backend ?e1 ?call = Replies waits r
                 \<and> list_ex (\<lambda>d. http_client_timeout < d) waits \<and> ''Connection refused'' = [])"
    by simp
  have b2: "backend ?e2 ?call = Fails []
           \<or> (\<exists>waits r. backend ?e2 ?call = Replies waits r
                 \<and> list_ex (\<lambda>d. http_client_timeout < d) waits \<and> ([]::string) = [])"
    using t by simp
  have u1: "''http://localhost:3000'' = USER_SERVICE_URL ?e1" "''http://localhost:3000'' = USER_SERVICE_URL ?e2"
    by (simp_all add: example_env_def)
  from network_failure_503[OF example_call b1, of example_world "''42''"]
       example_admitted(1,6) u1(1)
  have r1: "status_code (fst (app ?e1 example_request example_world)) = 503
     \<and> resp_content (fst (app ?e1 example_request example_world))
       = JSONBody (JObj [(''detail'', JStr (''Service unavailable: '' @ ''Connection refused''))])"
    by blast
  from network_failure_503[OF example_call b2, of example_world "''42''"]
       example_admitted(1,6) u1(2)
  have r2: "status_code (fst (app ?e2 example_request example_world)) = 503"
    by blast
  from r1 r2 t show ?thesis by simp
qed



end
